theory Spec2Isabelle
  imports Main "HOL-Library.Word" "HOL-Library.AList"
begin

section \<open>JavaScript strings\<close>

text \<open>
  A JavaScript string is a sequence of UTF-16 code units. The literals of
  \<^verbatim>\<open>src/services/geminiService.ts\<close> that the model spells out are ASCII and are
  written through \<open>js\<close>; the Arabic message of line 13 is given by its code units.
\<close>

type_synonym jschar = "16 word"
type_synonym jsstring = "jschar list"

definition js :: "string \<Rightarrow> jsstring" where
  "js s = map of_char s"

text \<open>The decimal digits of a non-negative integer, most significant first.\<close>

fun digits :: "nat \<Rightarrow> jsstring" where
  "digits n =
     (if n < 10 then [of_nat (48 + n)]
      else digits (n div 10) @ [of_nat (48 + n mod 10)])"

declare digits.simps [simp del]

text \<open>
  \<^verbatim>\<open>${Date.now()}\<close> and \<^verbatim>\<open>${i}\<close> in a template literal apply ToString to a
  Number. Both are integers far below \<open>10^21\<close> in magnitude (a time value is at most
  \<open>8.64e15\<close>), where ToString is the plain decimal numeral with a leading minus sign
  for a negative value.
\<close>

definition Number_toString :: "int \<Rightarrow> jsstring" where
  "Number_toString n =
     (if n < 0 then js ''-'' @ digits (nat (- n)) else digits (nat n))"

text \<open>
  \<^verbatim>\<open>String.prototype.trim\<close> removes the WhiteSpace and LineTerminator code points of
  ECMAScript from both ends: TAB, LF, VT, FF, CR, SP, NBSP, U+1680, U+2000 to U+200A,
  U+2028, U+2029, U+202F, U+205F, U+3000 and U+FEFF.
\<close>

definition js_whitespace :: "jschar \<Rightarrow> bool" where
  "js_whitespace c \<longleftrightarrow>
     c = 0x09 \<or> c = 0x0A \<or> c = 0x0B \<or> c = 0x0C \<or> c = 0x0D \<or> c = 0x20 \<or> c = 0xA0 \<or>
     c = 0x1680 \<or> (0x2000 \<le> c \<and> c \<le> 0x200A) \<or> c = 0x2028 \<or> c = 0x2029 \<or>
     c = 0x202F \<or> c = 0x205F \<or> c = 0x3000 \<or> c = 0xFEFF"

definition trim :: "jsstring \<Rightarrow> jsstring" where
  "trim s = rev (dropWhile js_whitespace (rev (dropWhile js_whitespace s)))"

section \<open>JavaScript values as JSON.parse builds them\<close>

text \<open>
  \<open>JNumber neg m e\<close> is the Number read from the decimal \<open>(-1)^neg * m * 10^e\<close>; the
  model keeps the decimal as written and never rounds it. An object is the list of its
  own properties in creation order (the place JavaScript gives to integer-like keys is
  not modelled). \<open>JArray es ps\<close> is an Array with the elements \<open>es\<close> and the own
  properties \<open>ps\<close> that are neither an index nor \<^verbatim>\<open>length\<close>; JSON.parse builds arrays
  with \<open>ps = []\<close>, and line 75 to 77 can add such properties to a top-level array.
\<close>

datatype jsval =
    JNull
  | JBool bool
  | JNumber bool nat int
  | JString jsstring
  | JArray "jsval list" "(jsstring \<times> jsval) list"
  | JObject "(jsstring \<times> jsval) list"

text \<open>
  A decimal \<open>m * 10^e\<close> denotes the Number \<open>+0\<close> or \<open>-0\<close> exactly when rounding it to
  the nearest double (ties to even) gives zero: when it is at most \<open>2^-1075\<close>, half of
  the least positive double.
\<close>

definition rounds_to_zero :: "nat \<Rightarrow> int \<Rightarrow> bool" where
  "rounds_to_zero m e \<longleftrightarrow>
     (if 0 \<le> e then m = 0 else m * 2 ^ 1075 \<le> 10 ^ nat (- e))"

fun ToBoolean :: "jsval \<Rightarrow> bool" where
  "ToBoolean JNull = False"
| "ToBoolean (JBool b) = b"
| "ToBoolean (JNumber neg m e) = (\<not> rounds_to_zero m e)"
| "ToBoolean (JString s) = (s \<noteq> [])"
| "ToBoolean (JArray es ps) = True"
| "ToBoolean (JObject ps) = True"

text \<open>What a \<^verbatim>\<open>catch\<close> clause of the module can receive.\<close>

datatype caught =
    Rejected jsstring
  | TypeError
  | SyntaxError

text \<open>
  \<open>Get v k\<close> is the property read \<^verbatim>\<open>v.k\<close> for a key \<open>k\<close> that no built-in prototype
  defines and that is neither an array index nor \<^verbatim>\<open>length\<close> (the module reads
  \<^verbatim>\<open>cognitiveObjectives\<close>, \<^verbatim>\<open>psychomotorObjectives\<close> and \<^verbatim>\<open>affectiveObjectives\<close>):
  \<open>Inr None\<close> is \<^verbatim>\<open>undefined\<close>, and reading a property of \<^verbatim>\<open>null\<close> throws.
\<close>

fun Get :: "jsval \<Rightarrow> jsstring \<Rightarrow> caught + jsval option" where
  "Get JNull k = Inl TypeError"
| "Get (JObject ps) k = Inr (map_of ps k)"
| "Get (JArray es ps) k = Inr (map_of ps k)"
| "Get v k = Inr None"

text \<open>
  \<open>Set v k x\<close> is the assignment \<^verbatim>\<open>v.k = x\<close> in strict mode (the file is an ES
  module), for the same keys: it creates or overwrites an own property of an
  object and throws on a primitive.
\<close>

fun Set :: "jsval \<Rightarrow> jsstring \<Rightarrow> jsval \<Rightarrow> caught + jsval" where
  "Set (JObject ps) k x = Inr (JObject (AList.update k x ps))"
| "Set (JArray es ps) k x = Inr (JArray es (AList.update k x ps))"
| "Set v k x = Inl TypeError"

text \<open>\<^verbatim>\<open>x || []\<close>, where \<open>None\<close> is \<^verbatim>\<open>undefined\<close>.\<close>

definition or_empty :: "jsval option \<Rightarrow> jsval" where
  "or_empty x =
     (case x of
        None \<Rightarrow> JArray [] []
      | Some v \<Rightarrow> if ToBoolean v then v else JArray [] [])"

text \<open>
  The own enumerable properties that the spread \<^verbatim>\<open>{...o}\<close> copies: those of an
  object, the elements of an array under their indices, the code units of a string
  under theirs, and nothing for \<^verbatim>\<open>null\<close>, a boolean or a number.
\<close>

fun spread :: "jsval \<Rightarrow> (jsstring \<times> jsval) list" where
  "spread (JObject ps) = ps"
| "spread (JArray es ps) = zip (map digits [0..<length es]) es @ ps"
| "spread (JString s) = zip (map digits [0..<length s]) (map (\<lambda>c. JString [c]) s)"
| "spread v = []"

text \<open>The object literal \<^verbatim>\<open>{...o, id: s}\<close> of lines 75 to 77.\<close>

definition with_id :: "jsval \<Rightarrow> jsstring \<Rightarrow> jsval" where
  "with_id o' s = JObject (AList.update (js ''id'') (JString s) (spread o'))"

section \<open>JSON.parse\<close>

datatype token =
    TLBrace | TRBrace | TLBracket | TRBracket | TColon | TComma
  | TValue jsval

definition json_ws :: "jschar \<Rightarrow> bool" where
  "json_ws c \<longleftrightarrow> c = 0x09 \<or> c = 0x0A \<or> c = 0x0D \<or> c = 0x20"

definition is_digit :: "jschar \<Rightarrow> bool" where
  "is_digit c \<longleftrightarrow> 0x30 \<le> c \<and> c \<le> 0x39"

definition hex_value :: "jschar \<Rightarrow> nat option" where
  "hex_value c =
     (if 0x30 \<le> c \<and> c \<le> 0x39 then Some (unat c - 48)
      else if 0x41 \<le> c \<and> c \<le> 0x46 then Some (unat c - 55)
      else if 0x61 \<le> c \<and> c \<le> 0x66 then Some (unat c - 87)
      else None)"

definition simple_escape :: "jschar \<Rightarrow> jschar option" where
  "simple_escape c =
     (if c = 0x22 then Some 0x22
      else if c = 0x5C then Some 0x5C
      else if c = 0x2F then Some 0x2F
      else if c = 0x62 then Some 0x08
      else if c = 0x66 then Some 0x0C
      else if c = 0x6E then Some 0x0A
      else if c = 0x72 then Some 0x0D
      else if c = 0x74 then Some 0x09
      else None)"

definition lex_escape :: "jsstring \<Rightarrow> (jschar \<times> jsstring) option" where
  "lex_escape cs =
     (case cs of
        [] \<Rightarrow> None
      | e # cs1 \<Rightarrow>
          if e = 0x75 then
            (case cs1 of
               h1 # h2 # h3 # h4 # cs2 \<Rightarrow>
                 (case (hex_value h1, hex_value h2, hex_value h3, hex_value h4) of
                    (Some a, Some b, Some c, Some d) \<Rightarrow>
                      Some (of_nat (((a * 16 + b) * 16 + c) * 16 + d), cs2)
                  | _ \<Rightarrow> None)
             | _ \<Rightarrow> None)
          else map_option (\<lambda>x. (x, cs1)) (simple_escape e))"

lemma lex_escape_shorter: "lex_escape cs = Some (x, rest) \<Longrightarrow> length rest < length cs"
  by (auto simp: lex_escape_def split: list.splits if_splits option.splits)

function lex_string :: "jsstring \<Rightarrow> jsstring \<Rightarrow> (jsstring \<times> jsstring) option" where
  "lex_string acc [] = None"
| "lex_string acc (c # cs) =
     (if c = 0x22 then Some (rev acc, cs)
      else if c = 0x5C then
        (case lex_escape cs of
           None \<Rightarrow> None
         | Some (x, rest) \<Rightarrow> lex_string (x # acc) rest)
      else if c < 0x20 then None
      else lex_string (c # acc) cs)"
  by pat_completeness auto
termination
  by (relation "measure (\<lambda>(acc, s). length s)") (auto dest: lex_escape_shorter)

definition nat_of_digits :: "jsstring \<Rightarrow> nat" where
  "nat_of_digits ds = foldl (\<lambda>a c. 10 * a + (unat c - 48)) 0 ds"

definition lex_sign :: "jsstring \<Rightarrow> bool \<times> jsstring" where
  "lex_sign s = (if s \<noteq> [] \<and> hd s = 0x2D then (True, tl s) else (False, s))"

definition lex_int :: "jsstring \<Rightarrow> jsstring \<times> jsstring" where
  "lex_int s =
     (if s \<noteq> [] \<and> hd s = 0x30 then ([0x30], tl s)
      else (takeWhile is_digit s, dropWhile is_digit s))"

definition lex_frac :: "jsstring \<Rightarrow> (jsstring \<times> jsstring) option" where
  "lex_frac s =
     (if s \<noteq> [] \<and> hd s = 0x2E then
        (if takeWhile is_digit (tl s) = [] then None
         else Some (takeWhile is_digit (tl s), dropWhile is_digit (tl s)))
      else Some ([], s))"

definition lex_exp :: "jsstring \<Rightarrow> (int \<times> jsstring) option" where
  "lex_exp s =
     (if s \<noteq> [] \<and> (hd s = 0x65 \<or> hd s = 0x45) then
        (case (if tl s \<noteq> [] \<and> (hd (tl s) = 0x2D \<or> hd (tl s) = 0x2B)
               then (hd (tl s) = 0x2D, tl (tl s)) else (False, tl s)) of
           (eneg, s1) \<Rightarrow>
             if takeWhile is_digit s1 = [] then None
             else Some ((if eneg then - int (nat_of_digits (takeWhile is_digit s1))
                         else int (nat_of_digits (takeWhile is_digit s1))),
                        dropWhile is_digit s1))
      else Some (0, s))"

definition lex_number :: "jsstring \<Rightarrow> (jsval \<times> jsstring) option" where
  "lex_number s =
     (case lex_sign s of (neg, s1) \<Rightarrow>
      case lex_int s1 of (ip, s2) \<Rightarrow>
        if ip = [] then None
        else
          (case lex_frac s2 of
             None \<Rightarrow> None
           | Some (fd, s3) \<Rightarrow>
               (case lex_exp s3 of
                  None \<Rightarrow> None
                | Some (ex, s4) \<Rightarrow>
                    Some (JNumber neg (nat_of_digits (ip @ fd)) (ex - int (length fd)), s4))))"

lemma lex_sign_le: "lex_sign s = (neg, s1) \<Longrightarrow> length s1 \<le> length s"
  by (auto simp: lex_sign_def split: if_splits)

lemma lex_int_less: "lex_int s = (ip, s2) \<Longrightarrow> ip \<noteq> [] \<Longrightarrow> length s2 < length s"
proof -
  assume a: "lex_int s = (ip, s2)" and n: "ip \<noteq> []"
  show ?thesis
  proof (cases "s \<noteq> [] \<and> hd s = 0x30")
    case True
    with a show ?thesis by (cases s) (auto simp: lex_int_def)
  next
    case False
    with a have ip: "ip = takeWhile is_digit s" and s2: "s2 = dropWhile is_digit s"
      by (auto simp: lex_int_def)
    have "length (takeWhile is_digit s) + length (dropWhile is_digit s) = length s"
      by (metis length_append takeWhile_dropWhile_id)
    moreover from ip n have "0 < length (takeWhile is_digit s)" by simp
    ultimately show ?thesis unfolding s2 by linarith
  qed
qed

lemma lex_frac_le: "lex_frac s = Some (fd, s3) \<Longrightarrow> length s3 \<le> length s"
  using length_dropWhile_le[of is_digit "tl s"]
  by (auto simp: lex_frac_def split: if_splits)

lemma lex_exp_le: "lex_exp s = Some (ex, s4) \<Longrightarrow> length s4 \<le> length s"
  using length_dropWhile_le[of is_digit "tl s"] length_dropWhile_le[of is_digit "tl (tl s)"]
  by (auto simp: lex_exp_def split: if_splits)

lemma lex_string_shorter: "lex_string acc s = Some (r, rest) \<Longrightarrow> length rest < length s"
proof (induction acc s arbitrary: r rest rule: lex_string.induct)
  case (1 acc)
  then show ?case by simp
next
  case (2 acc c cs)
  show ?case
  proof (cases "c = 0x22")
    case True
    with 2 show ?thesis by simp
  next
    case notq: False
    show ?thesis
    proof (cases "c = 0x5C")
      case True
      with notq 2(3) obtain x rest' where
        e: "lex_escape cs = Some (x, rest')" and l: "lex_string (x # acc) rest' = Some (r, rest)"
        by (auto split: option.splits)
      from 2(1)[OF notq True e refl l] lex_escape_shorter[OF e]
      show ?thesis by simp
    next
      case False
      with notq 2(3) have "\<not> c < 0x20" and l: "lex_string (c # acc) cs = Some (r, rest)"
        by (auto split: if_splits)
      from 2(2)[OF notq False this] show ?thesis by simp
    qed
  qed
qed

lemma lex_number_shorter:
  assumes "lex_number s = Some (v, rest)"
  shows "length rest < length s"
proof -
  obtain neg s1 where sg: "lex_sign s = (neg, s1)" by (cases "lex_sign s")
  obtain ip s2 where ip: "lex_int s1 = (ip, s2)" by (cases "lex_int s1")
  from assms sg ip have ne: "ip \<noteq> []"
    by (auto simp: lex_number_def split: if_splits)
  from assms sg ip ne obtain fd s3 where fr: "lex_frac s2 = Some (fd, s3)"
    by (auto simp: lex_number_def split: option.splits)
  from assms sg ip ne fr obtain ex where ex: "lex_exp s3 = Some (ex, rest)"
    by (auto simp: lex_number_def split: option.splits)
  from lex_sign_le[OF sg] lex_int_less[OF ip ne] lex_frac_le[OF fr] lex_exp_le[OF ex]
  show ?thesis by linarith
qed

function tokenize :: "jsstring \<Rightarrow> token list option" where
  "tokenize [] = Some []"
| "tokenize (c # cs) =
     (if json_ws c then tokenize cs
      else if c = 0x7B then map_option ((#) TLBrace) (tokenize cs)
      else if c = 0x7D then map_option ((#) TRBrace) (tokenize cs)
      else if c = 0x5B then map_option ((#) TLBracket) (tokenize cs)
      else if c = 0x5D then map_option ((#) TRBracket) (tokenize cs)
      else if c = 0x3A then map_option ((#) TColon) (tokenize cs)
      else if c = 0x2C then map_option ((#) TComma) (tokenize cs)
      else if c = 0x22 then
        (case lex_string [] cs of
           None \<Rightarrow> None
         | Some (s, rest) \<Rightarrow> map_option ((#) (TValue (JString s))) (tokenize rest))
      else if c = 0x2D \<or> is_digit c then
        (case lex_number (c # cs) of
           None \<Rightarrow> None
         | Some (v, rest) \<Rightarrow> map_option ((#) (TValue v)) (tokenize rest))
      else if take 4 (c # cs) = js ''null'' then
        map_option ((#) (TValue JNull)) (tokenize (drop 3 cs))
      else if take 4 (c # cs) = js ''true'' then
        map_option ((#) (TValue (JBool True))) (tokenize (drop 3 cs))
      else if take 5 (c # cs) = js ''false'' then
        map_option ((#) (TValue (JBool False))) (tokenize (drop 4 cs))
      else None)"
  by pat_completeness auto
termination
proof (relation "measure length")
  fix c :: jschar and cs x2 x y
  assume "lex_string [] cs = Some x2" "(x, y) = x2"
  then show "(y, c # cs) \<in> measure length"
    using lex_string_shorter[of "[]" cs x y] by simp
next
  fix c :: jschar and cs x2 x y
  assume "lex_number (c # cs) = Some x2" "(x, y) = x2"
  then show "(y, c # cs) \<in> measure length"
    using lex_number_shorter[of "c # cs" x y] by simp
qed simp_all

text \<open>
  The tokens are read by a pushdown automaton over the JSON grammar: one frame for
  each array or object that is still open. A repeated key of an object keeps its first
  place and takes the last value, as JSON.parse does.
\<close>

datatype frame =
    FArr "jsval list"
  | FObj "(jsstring \<times> jsval) list"
  | FKey "(jsstring \<times> jsval) list" jsstring

datatype expect =
    EValue | EValueOrClose | EKeyOrClose | EKey | EColon | ECommaOrClose
  | EDone jsval

fun complete :: "jsval \<Rightarrow> frame list \<Rightarrow> (expect \<times> frame list) option" where
  "complete v [] = Some (EDone v, [])"
| "complete v (FArr es # st) = Some (ECommaOrClose, FArr (v # es) # st)"
| "complete v (FKey ps k # st) = Some (ECommaOrClose, FObj (AList.update k v ps) # st)"
| "complete v (FObj ps # st) = None"

definition value_start :: "frame list \<Rightarrow> token \<Rightarrow> (expect \<times> frame list) option" where
  "value_start st t =
     (case t of
        TValue v \<Rightarrow> complete v st
      | TLBracket \<Rightarrow> Some (EValueOrClose, FArr [] # st)
      | TLBrace \<Rightarrow> Some (EKeyOrClose, FObj [] # st)
      | _ \<Rightarrow> None)"

definition close_array :: "frame list \<Rightarrow> (expect \<times> frame list) option" where
  "close_array st =
     (case st of FArr es # st' \<Rightarrow> complete (JArray (rev es) []) st' | _ \<Rightarrow> None)"

definition close_object :: "frame list \<Rightarrow> (expect \<times> frame list) option" where
  "close_object st =
     (case st of FObj ps # st' \<Rightarrow> complete (JObject ps) st' | _ \<Rightarrow> None)"

definition key_start :: "frame list \<Rightarrow> token \<Rightarrow> (expect \<times> frame list) option" where
  "key_start st t =
     (case (st, t) of
        (FObj ps # st', TValue (JString k)) \<Rightarrow> Some (EColon, FKey ps k # st')
      | _ \<Rightarrow> None)"

definition separator :: "frame list \<Rightarrow> (expect \<times> frame list) option" where
  "separator st =
     (case st of
        FArr es # st' \<Rightarrow> Some (EValue, st)
      | FObj ps # st' \<Rightarrow> Some (EKey, st)
      | _ \<Rightarrow> None)"

fun parse_step :: "expect \<times> frame list \<Rightarrow> token \<Rightarrow> (expect \<times> frame list) option" where
  "parse_step (EValue, st) t = value_start st t"
| "parse_step (EValueOrClose, st) t =
     (case t of TRBracket \<Rightarrow> close_array st | _ \<Rightarrow> value_start st t)"
| "parse_step (EKeyOrClose, st) t =
     (case t of TRBrace \<Rightarrow> close_object st | _ \<Rightarrow> key_start st t)"
| "parse_step (EKey, st) t = key_start st t"
| "parse_step (EColon, st) t = (case t of TColon \<Rightarrow> Some (EValue, st) | _ \<Rightarrow> None)"
| "parse_step (ECommaOrClose, st) t =
     (case t of
        TComma \<Rightarrow> separator st
      | TRBracket \<Rightarrow> close_array st
      | TRBrace \<Rightarrow> close_object st
      | _ \<Rightarrow> None)"
| "parse_step (EDone v, st) t = None"

fun parse_tokens :: "expect \<times> frame list \<Rightarrow> token list \<Rightarrow> jsval option" where
  "parse_tokens (EDone v, st) [] = Some v"
| "parse_tokens s [] = None"
| "parse_tokens s (t # ts) =
     (case parse_step s t of None \<Rightarrow> None | Some s' \<Rightarrow> parse_tokens s' ts)"

text \<open>\<open>None\<close> is the SyntaxError that JSON.parse throws.\<close>

definition JSON_parse :: "jsstring \<Rightarrow> jsval option" where
  "JSON_parse text =
     (case tokenize text of
        None \<Rightarrow> None
      | Some ts \<Rightarrow> parse_tokens (EValue, []) ts)"

section \<open>The module \<^verbatim>\<open>src/services/geminiService.ts\<close>\<close>

subsection \<open>The request\<close>

text \<open>
  The response schema of lines 18 to 47, by field names and types; the
  \<^verbatim>\<open>description\<close> texts are left out.
\<close>

datatype schema =
    SString
  | SArray schema
  | SObject "(string \<times> schema) list" "string list"

definition objectiveSchema :: schema where
  "objectiveSchema =
     SObject [(''level'', SString), (''formulation'', SString), (''evaluation'', SString)]
       [''level'', ''formulation'', ''evaluation'']"

definition responseSchema :: schema where
  "responseSchema =
     SObject
       [(''lessonTitle'', SString),
        (''subject'', SString),
        (''grade'', SString),
        (''teachingMethods'', SArray SString),
        (''teachingAids'', SArray SString),
        (''lessonIntro'', SString),
        (''introType'', SString),
        (''cognitiveObjectives'', SArray objectiveSchema),
        (''psychomotorObjectives'', SArray objectiveSchema),
        (''affectiveObjectives'', SArray objectiveSchema),
        (''teacherRole'', SString),
        (''studentRole'', SString),
        (''lessonContent'', SString),
        (''lessonClosure'', SString),
        (''homework'', SString)]
       []"

record request =
  apiKey :: jsstring
  model :: jsstring
  contents :: jsstring
  responseMimeType :: jsstring
  schema_of :: schema

text \<open>The template literal of lines 49 to 59, before and after \<^verbatim>\<open>${lessonText}\<close>.\<close>

definition prompt_head :: jsstring where
  "prompt_head =
     js ([CHR 0x0A] @
        ''    You are an expert educational assistant specializing in analyzing '' @
        ''and structuring lesson plans for Yemeni teachers.'' @
        [CHR 0x0A] @
        ''    Your task is to analyze the following lesson plan text and '' @
        ''extract the required information into a structured JSON format.'' @
        [CHR 0x0A] @
        ''    You must analyze the provided lesson text and fill in all fields '' @
        ''in the JSON schema. If a specific detail (like 'teaching '' @
        ''aids' or 'teacher role') is missing from the text, you MUST infer and '' @
        ''generate appropriate content based on the lesson's subject, grade '' @
        ''level, and topic. For example, for a 5th-grade Arabic lesson about '' @
        ''poetry, you might suggest 'whiteboard, markers, poetry anthology' as '' @
        ''teaching aids. Do not leave any fields empty; provide logical and '' @
        ''relevant suggestions for all of them. Ensure the objectives you '' @
        ''generate are well-formed and appropriate for the lesson.'' @
        [CHR 0x0A] @
        [CHR 0x0A] @
        ''    The lesson plan is:'' @
        [CHR 0x0A] @
        ''    ---'' @
        [CHR 0x0A] @
        ''    '')"

definition prompt_tail :: jsstring where
  "prompt_tail =
     js ([CHR 0x0A] @
        ''    ---'' @
        [CHR 0x0A] @
        ''    Please extract the information according to the provided JSON '' @
        ''schema.'' @
        [CHR 0x0A] @
        ''    '')"

definition prompt :: "jsstring \<Rightarrow> jsstring" where
  "prompt lessonText = prompt_head @ lessonText @ prompt_tail"

subsection \<open>The environment and the effects\<close>

text \<open>
  The global \<^verbatim>\<open>process\<close> as line 11 meets it: it is undefined; or it is defined and
  reading \<^verbatim>\<open>process.env.API_KEY\<close> throws a TypeError (\<^verbatim>\<open>process.env\<close> is undefined or
  null, as for a page where \<^verbatim>\<open>process\<close> is \<^verbatim>\<open>{}\<close>); or \<^verbatim>\<open>process.env\<close> is an object and
  \<^verbatim>\<open>process.env.API_KEY\<close> is a string or \<^verbatim>\<open>undefined\<close>.
\<close>

datatype process_global =
    ProcessUndefined
  | ProcessNoEnv
  | ProcessEnv "jsstring option"

text \<open>
  \<open>generateContent\<close> is what the remote service answers to a request: the call
  rejects, or resolves to a response whose \<^verbatim>\<open>text\<close> is a string or \<^verbatim>\<open>undefined\<close>.
  \<open>Date_now k\<close> is what the \<open>k\<close>-th reading of the clock returns; nothing is assumed
  of the readings.
\<close>

datatype reply =
    Rejects jsstring
  | Resolves "jsstring option"

record env =
  process :: process_global
  generateContent :: "request \<Rightarrow> reply"
  Date_now :: "nat \<Rightarrow> int"

text \<open>\<^verbatim>\<open>process.env.API_KEY\<close> where it can be read, \<open>None\<close> for \<^verbatim>\<open>undefined\<close>.\<close>

definition API_KEY :: "env \<Rightarrow> jsstring option" where
  "API_KEY env = (case process env of ProcessEnv k \<Rightarrow> k | _ \<Rightarrow> None)"

text \<open>
  The effects of a call: the requests issued to the remote service, the lines written
  with \<^verbatim>\<open>console.error\<close>, and how many times the clock was read.
\<close>

datatype log_line = ConsoleError jsstring "caught option"

record world =
  sent :: "request list"
  console :: "log_line list"
  ticks :: nat

text \<open>
  What the function throws to its caller: \<^verbatim>\<open>new Error(message)\<close> from line 13 or
  line 83, or what line 11 itself throws, which no \<^verbatim>\<open>catch\<close> receives.
\<close>

datatype js_error =
    Error jsstring
  | Uncaught caught

definition api_key_log :: jsstring where
  "api_key_log =
     js (''API_KEY is not defined. Please ensure it is set in your '' @
         ''deployment environment variables.'')"

text \<open>The message of line 13, in UTF-16 code units.\<close>

definition api_key_message :: jsstring where
  "api_key_message =
     [1604, 1605, 32, 1610, 1578, 1605, 32, 1575, 1604, 1593, 1579, 1608, 1585, 32,
      1593, 1604, 1609, 32, 1605, 1601, 1578, 1575, 1581, 32, 1575, 1604, 1608, 1575,
      1580, 1607, 1577, 32, 1575, 1604, 1576, 1585, 1605, 1580, 1610, 1577, 32, 40,
      65, 80, 73, 32, 75, 101, 121, 41, 46, 32, 1610, 1585, 1580, 1609,
      32, 1575, 1604, 1578, 1571, 1603, 1583, 32, 1605, 1606, 32, 1573, 1593, 1583,
      1575, 1583, 1607, 32, 1601, 1610, 32, 1605, 1578, 1594, 1610, 1585, 1575, 1578,
      32, 1575, 1604, 1576, 1610, 1574, 1577, 32, 1575, 1604, 1582, 1575, 1589, 1577,
      32, 1576, 1606, 1588, 1585, 32, 1575, 1604, 1578, 1591, 1576, 1610, 1602, 46]"

definition catch_log :: jsstring where
  "catch_log = js ''Error calling Gemini API:''"

definition failure_message :: jsstring where
  "failure_message = js ''Failed to analyze lesson plan with Gemini.''"

text \<open>
  Line 4, the module's constant: an objective whose id is the decimal numeral of the
  clock reading \<open>t\<close> at load time. The function does not use it.
\<close>

definition initialObjective :: "int \<Rightarrow> jsval" where
  "initialObjective t =
     JObject [(js ''id'', JString (Number_toString t)), (js ''level'', JString []),
              (js ''formulation'', JString []), (js ''evaluation'', JString [])]"

subsection \<open>Lines 75 to 77: the objective lists\<close>

text \<open>The template literal \<^verbatim>\<open>`cog-${Date.now()}-${i}`\<close>, for the prefix \<open>pre\<close>.\<close>

definition make_id :: "jsstring \<Rightarrow> int \<Rightarrow> nat \<Rightarrow> jsstring" where
  "make_id pre t i = pre @ js ''-'' @ Number_toString t @ js ''-'' @ digits i"

text \<open>
  \<^verbatim>\<open>.map((o, i) => ({...o, id: `cog-${Date.now()}-${i}`}))\<close> from index \<open>i\<close> on: the
  callback reads the clock once for each element.
\<close>

fun map_objectives :: "jsstring \<Rightarrow> env \<Rightarrow> nat \<Rightarrow> jsval list \<Rightarrow> world \<Rightarrow> jsval list \<times> world" where
  "map_objectives pre env i [] w = ([], w)"
| "map_objectives pre env i (x # xs) w =
     (case map_objectives pre env (Suc i) xs (w\<lparr>ticks := Suc (ticks w)\<rparr>) of
        (ys, w') \<Rightarrow> (with_id x (make_id pre (Date_now env (ticks w)) i) # ys, w'))"

text \<open>
  One of the lines 75 to 77, for the property \<open>key\<close>:
  \<^verbatim>\<open>parsedResult.key = (parsedResult.key || []).map(...)\<close>. Only an Array has a
  callable \<^verbatim>\<open>map\<close> (a JSON value under an own key \<^verbatim>\<open>map\<close> is never callable).
\<close>

definition objectives_line ::
  "jsstring \<Rightarrow> jsstring \<Rightarrow> env \<Rightarrow> jsval \<Rightarrow> world \<Rightarrow> (caught + jsval) \<times> world" where
  "objectives_line key pre env parsedResult w =
     (case Get parsedResult key of
        Inl e \<Rightarrow> (Inl e, w)
      | Inr field \<Rightarrow>
          (case or_empty field of
             JArray es ps \<Rightarrow>
               if map_of ps (js ''map'') \<noteq> None then (Inl TypeError, w)
               else
                 (case map_objectives pre env 0 es w of
                    (ys, w') \<Rightarrow> (Set parsedResult key (JArray ys []), w'))
           | _ \<Rightarrow> (Inl TypeError, w)))"

text \<open>The three properties that lines 75 to 77 rewrite.\<close>

definition cognitiveObjectives :: jsstring where
  "cognitiveObjectives = js ''cognitiveObjectives''"

definition psychomotorObjectives :: jsstring where
  "psychomotorObjectives = js ''psychomotorObjectives''"

definition affectiveObjectives :: jsstring where
  "affectiveObjectives = js ''affectiveObjectives''"

definition assign_ids :: "env \<Rightarrow> jsval \<Rightarrow> world \<Rightarrow> (caught + jsval) \<times> world" where
  "assign_ids env parsedResult w =
     (case objectives_line cognitiveObjectives (js ''cog'') env parsedResult w of
        (Inl e, w1) \<Rightarrow> (Inl e, w1)
      | (Inr p1, w1) \<Rightarrow>
          (case objectives_line psychomotorObjectives (js ''psy'') env p1 w1 of
             (Inl e, w2) \<Rightarrow> (Inl e, w2)
           | (Inr p2, w2) \<Rightarrow>
               objectives_line affectiveObjectives (js ''aff'') env p2 w2))"

subsection \<open>The function\<close>

text \<open>
  The condition of line 11, \<^verbatim>\<open>typeof process === 'undefined' || !process.env.API_KEY\<close>:
  \<open>Inr\<close> is its value and \<open>Inl\<close> is what evaluating it throws. The line stands before
  \<^verbatim>\<open>try\<close>.
\<close>

definition line_11 :: "env \<Rightarrow> caught + bool" where
  "line_11 env =
     (case process env of
        ProcessUndefined \<Rightarrow> Inr True
      | ProcessNoEnv \<Rightarrow> Inl TypeError
      | ProcessEnv None \<Rightarrow> Inr True
      | ProcessEnv (Some k) \<Rightarrow> Inr (k = []))"

text \<open>
  No credential is configured: there is no \<^verbatim>\<open>process\<close>, no \<^verbatim>\<open>process.env\<close>, or no
  non-empty \<^verbatim>\<open>API_KEY\<close> in it.
\<close>

definition credential_missing :: "env \<Rightarrow> bool" where
  "credential_missing env \<longleftrightarrow>
     (case process env of ProcessEnv (Some k) \<Rightarrow> k = [] | _ \<Rightarrow> True)"

text \<open>
  Lines 16 and 62 to 69: the client's key and the argument of the call. The key is
  present when these lines run, since line 13 has thrown otherwise.
\<close>

definition build_request :: "env \<Rightarrow> jsstring \<Rightarrow> request" where
  "build_request env lessonText =
     \<lparr>apiKey = (case API_KEY env of Some k \<Rightarrow> k | None \<Rightarrow> []),
      model = js ''gemini-2.5-flash'',
      contents = prompt lessonText,
      responseMimeType = js ''application/json'',
      schema_of = responseSchema\<rparr>"

text \<open>
  Lines 62 to 79, the body of \<^verbatim>\<open>try\<close>: \<open>Inl\<close> is what it throws. Calling
  \<^verbatim>\<open>trim\<close> on an undefined \<^verbatim>\<open>response.text\<close> is a TypeError.
\<close>

definition try_block :: "env \<Rightarrow> jsstring \<Rightarrow> world \<Rightarrow> (caught + jsval) \<times> world" where
  "try_block env lessonText w =
     (case generateContent env (build_request env lessonText) of
        Rejects e \<Rightarrow>
          (Inl (Rejected e), w\<lparr>sent := sent w @ [build_request env lessonText]\<rparr>)
      | Resolves None \<Rightarrow>
          (Inl TypeError, w\<lparr>sent := sent w @ [build_request env lessonText]\<rparr>)
      | Resolves (Some text) \<Rightarrow>
          (case JSON_parse (trim text) of
             None \<Rightarrow> (Inl SyntaxError, w\<lparr>sent := sent w @ [build_request env lessonText]\<rparr>)
           | Some parsedResult \<Rightarrow>
               assign_ids env parsedResult
                 (w\<lparr>sent := sent w @ [build_request env lessonText]\<rparr>)))"

definition analyzeLessonPlanWithGemini ::
  "env \<Rightarrow> jsstring \<Rightarrow> world \<Rightarrow> (js_error + jsval) \<times> world" where
  "analyzeLessonPlanWithGemini env lessonText w =
     (case line_11 env of
        Inl e \<Rightarrow> (Inl (Uncaught e), w)
      | Inr missing \<Rightarrow>
          if missing then
            (Inl (Error api_key_message),
             w\<lparr>console := console w @ [ConsoleError api_key_log None]\<rparr>)
          else
            (case try_block env lessonText w of
               (Inr parsedResult, w') \<Rightarrow> (Inr parsedResult, w')
             | (Inl error, w') \<Rightarrow>
                 (Inl (Error failure_message),
                  w'\<lparr>console := console w' @ [ConsoleError catch_log (Some error)]\<rparr>)))"

subsection \<open>Reading a returned object\<close>

text \<open>
  The elements of the list that an object holds under \<open>key\<close> (none when the property
  is not an array), the \<^verbatim>\<open>id\<close> property of an element, and the ids of a list.
\<close>

definition objectives_of :: "jsval \<Rightarrow> jsstring \<Rightarrow> jsval list" where
  "objectives_of plan key =
     (case Get plan key of Inr (Some (JArray es ps)) \<Rightarrow> es | _ \<Rightarrow> [])"

definition id_of :: "jsval \<Rightarrow> jsval option" where
  "id_of x = (case x of JObject ps \<Rightarrow> map_of ps (js ''id'') | _ \<Rightarrow> None)"

definition objective_ids :: "jsval \<Rightarrow> jsstring \<Rightarrow> jsval option list" where
  "objective_ids plan key = map id_of (objectives_of plan key)"

definition all_ids :: "jsval \<Rightarrow> jsval option list" where
  "all_ids plan =
     objective_ids plan cognitiveObjectives @ objective_ids plan psychomotorObjectives @
     objective_ids plan affectiveObjectives"

text \<open>
  What lines 75 to 77 need of the parsed reply to run through: it is an object or an
  array, so that its properties can be written, and what it holds under each of the
  three keys is absent, falsy, or an array (whose \<^verbatim>\<open>map\<close> is that of the prototype).
\<close>

definition is_object :: "jsval \<Rightarrow> bool" where
  "is_object v = (case v of JObject ps \<Rightarrow> True | JArray es ps \<Rightarrow> True | _ \<Rightarrow> False)"

definition absent_or_list :: "jsval \<Rightarrow> jsstring \<Rightarrow> bool" where
  "absent_or_list parsedResult key =
     (case Get parsedResult key of
        Inl e \<Rightarrow> False
      | Inr None \<Rightarrow> True
      | Inr (Some (JArray es ps)) \<Rightarrow> map_of ps (js ''map'') = None
      | Inr (Some v) \<Rightarrow> \<not> ToBoolean v)"

text \<open>
  The list that \<^verbatim>\<open>(parsedResult.key || [])\<close> is for the parsed reply, and the
  identifiers that \<open>map_objectives\<close> makes for \<open>n\<close> elements when the clock has been
  read \<open>t0\<close> times before.
\<close>

definition remote_list :: "jsval \<Rightarrow> jsstring \<Rightarrow> jsval list" where
  "remote_list parsedResult key =
     (case Get parsedResult key of
        Inl e \<Rightarrow> []
      | Inr field \<Rightarrow> (case or_empty field of JArray es ps \<Rightarrow> es | _ \<Rightarrow> []))"

definition local_ids :: "jsstring \<Rightarrow> env \<Rightarrow> nat \<Rightarrow> nat \<Rightarrow> jsstring list" where
  "local_ids pre env t0 n = map (\<lambda>k. make_id pre (Date_now env (t0 + k)) k) [0..<n]"

section \<open>Example runs\<close>

text \<open>
  A reply with two cognitive objectives (the first with an id of the remote
  service's), one psychomotor objective under the same remote id, no affective list,
  and white space around the document; the object it parses to; and the object that
  lines 75 to 77 make of it when the three clock readings are \<open>t0\<close>, \<open>t1\<close>, \<open>t2\<close>.
\<close>

definition example_reply :: jsstring where
  \<open>example_reply =
     js (''  {"cognitiveObjectives":[{"id":"remote-1","level":"x"},{"level":"y"}],'' @
         ''"psychomotorObjectives":[{"id":"remote-1"}],"subject":"s"}  '')\<close>

definition example_parsed :: jsval where
  "example_parsed =
     JObject
       [(cognitiveObjectives,
         JArray
           [JObject [(js ''id'', JString (js ''remote-1'')), (js ''level'', JString (js ''x''))],
            JObject [(js ''level'', JString (js ''y''))]] []),
        (psychomotorObjectives,
         JArray [JObject [(js ''id'', JString (js ''remote-1''))]] []),
        (js ''subject'', JString (js ''s''))]"

definition example_plan :: "int \<Rightarrow> int \<Rightarrow> int \<Rightarrow> jsval" where
  "example_plan t0 t1 t2 =
     JObject
       [(cognitiveObjectives,
         JArray
           [JObject [(js ''id'', JString (make_id (js ''cog'') t0 0)),
                     (js ''level'', JString (js ''x''))],
            JObject [(js ''level'', JString (js ''y'')),
                     (js ''id'', JString (make_id (js ''cog'') t1 1))]] []),
        (psychomotorObjectives,
         JArray [JObject [(js ''id'', JString (make_id (js ''psy'') t2 0))]] []),
        (js ''subject'', JString (js ''s'')),
        (affectiveObjectives, JArray [] [])]"

text \<open>
  An environment with a credential whose remote service answers \<open>r\<close> and whose clock
  reads \<open>clock\<close>; a clock that advances by a millisecond at each reading and one that
  stands still; a world in which nothing has happened yet.
\<close>

definition example_env :: "reply \<Rightarrow> (nat \<Rightarrow> int) \<Rightarrow> env" where
  "example_env r clock =
     \<lparr>process = ProcessEnv (Some (js ''key'')),
      generateContent = (\<lambda>request. r),
      Date_now = clock\<rparr>"

definition ticking :: "nat \<Rightarrow> int" where
  "ticking k = 1730000000000 + int k"

definition frozen :: "nat \<Rightarrow> int" where
  "frozen k = 1730000000000"

definition new_world :: world where
  "new_world = \<lparr>sent = [], console = [], ticks = 0\<rparr>"

section \<open>Properties of the identifiers\<close>

subsection \<open>Decimal numerals\<close>


lemma unat_digit:
  assumes "k < 10"
  shows "unat (of_nat (48 + k) :: jschar) = 48 + k"
proof -
  have "unat (of_nat (48 + k) :: jschar) = (48 + k) mod 2 ^ LENGTH(16)"
    by (rule unat_of_nat)
  also have "\<dots> = 48 + k" using assms by simp
  finally show ?thesis .
qed

lemma digit_not_minus:
  assumes "k < 10"
  shows "(of_nat (48 + k) :: jschar) \<noteq> 0x2D"
proof
  assume "(of_nat (48 + k) :: jschar) = 0x2D"
  then have "unat (of_nat (48 + k) :: jschar) = unat (0x2D :: jschar)"
    by (rule arg_cong)
  then have "48 + k = unat (0x2D :: jschar)"
    by (simp only: unat_digit[OF assms])
  then show False by simp
qed

lemma minus_notin_digits: "0x2D \<notin> set (digits n)"
proof (induction n rule: digits.induct)
  case (1 n)
  show ?case
  proof (cases "n < 10")
    case True
    then show ?thesis using digit_not_minus[of n] by (subst digits.simps) simp
  next
    case False
    have "n mod 10 < 10" by simp
    from digit_not_minus[OF this] 1[OF False] False show ?thesis
      by (subst digits.simps) simp
  qed
qed

lemma digits_nonempty: "digits n \<noteq> []"
  by (subst digits.simps) simp

lemma nat_of_digits_snoc:
  "nat_of_digits (ds @ [c]) = 10 * nat_of_digits ds + (unat c - 48)"
  by (simp add: nat_of_digits_def)

lemma nat_of_digits_digits: "nat_of_digits (digits n) = n"
proof (induction n rule: digits.induct)
  case (1 n)
  show ?case
  proof (cases "n < 10")
    case True
    then show ?thesis
      by (subst digits.simps) (simp add: nat_of_digits_def unat_digit del: of_nat_add)
  next
    case False
    have m: "n mod 10 < 10" by simp
    have "nat_of_digits (digits n) =
            10 * nat_of_digits (digits (n div 10)) + (unat (of_nat (48 + n mod 10) :: jschar) - 48)"
      using False by (subst digits.simps) (simp add: nat_of_digits_snoc)
    also have "\<dots> = 10 * (n div 10) + n mod 10"
      using 1[OF False] unat_digit[OF m] by simp
    finally show ?thesis by simp
  qed
qed

lemma digits_inj: "digits i = digits j \<Longrightarrow> i = j"
  by (metis nat_of_digits_digits)

lemma Number_toString_nonempty: "Number_toString t \<noteq> []"
  by (simp add: Number_toString_def digits_nonempty js_def)

lemma Number_toString_inj:
  assumes "Number_toString a = Number_toString b"
  shows "a = b"
proof -
  have hd_digit: "hd (digits n) \<noteq> 0x2D" for n
    using minus_notin_digits[of n] digits_nonempty[of n] by (cases "digits n") auto
  show ?thesis
  proof (cases "a < 0")
    case an: True
    show ?thesis
    proof (cases "b < 0")
      case True
      with an assms have "digits (nat (- a)) = digits (nat (- b))"
        by (simp add: Number_toString_def)
      from digits_inj[OF this] an True show ?thesis by simp
    next
      case False
      with an assms have "0x2D # digits (nat (- a)) = digits (nat b)"
        by (simp add: Number_toString_def js_def)
      then have "hd (digits (nat b)) = 0x2D" by (metis list.sel(1))
      with hd_digit show ?thesis by blast
    qed
  next
    case ap: False
    show ?thesis
    proof (cases "b < 0")
      case True
      with ap assms have "digits (nat a) = 0x2D # digits (nat (- b))"
        by (simp add: Number_toString_def js_def)
      then have "hd (digits (nat a)) = 0x2D" by (metis list.sel(1))
      with hd_digit show ?thesis by blast
    next
      case False
      with ap assms have "digits (nat a) = digits (nat b)"
        by (simp add: Number_toString_def)
      from digits_inj[OF this] ap False show ?thesis by simp
    qed
  qed
qed

subsection \<open>Identifiers\<close>

lemma split_at_last:
  assumes "m \<notin> set a" "m \<notin> set b" "x @ m # a = y @ m # b"
  shows "x = y \<and> a = b"
proof -
  have tw: "takeWhile (\<lambda>c. c \<noteq> m) (rev s @ m # r) = rev s" if "m \<notin> set s" for s r
    using that by (auto simp: takeWhile_tail)
  from assms(3) have "rev (x @ m # a) = rev (y @ m # b)" by simp
  then have e: "rev a @ m # rev x = rev b @ m # rev y" by simp
  then have "takeWhile (\<lambda>c. c \<noteq> m) (rev a @ m # rev x) = takeWhile (\<lambda>c. c \<noteq> m) (rev b @ m # rev y)"
    by simp
  then have ab: "rev a = rev b" by (simp only: tw[OF assms(1)] tw[OF assms(2)])
  with e have "rev x = rev y" by simp
  with ab show ?thesis by simp
qed

lemma make_id_inj:
  assumes "make_id p t i = make_id q u j" "length p = length q"
  shows "p = q \<and> t = u \<and> i = j"
proof -
  from assms have pq: "p = q"
    and r: "Number_toString t @ 0x2D # digits i = Number_toString u @ 0x2D # digits j"
    by (simp_all add: make_id_def js_def)
  from split_at_last[OF minus_notin_digits minus_notin_digits r]
  have "Number_toString t = Number_toString u" "digits i = digits j" by simp_all
  with pq show ?thesis by (simp add: Number_toString_inj digits_inj)
qed

lemma make_id_nonempty: "make_id p t i \<noteq> []"
  by (simp add: make_id_def js_def)

subsection \<open>The objective lists\<close>

lemma upt_0_Suc: "[0..<Suc n] = 0 # map Suc [0..<n]"
  by (simp only: upt_conv_Cons[of 0 "Suc n"] map_Suc_upt)

lemma map_objectives_eq:
  "map_objectives pre env i xs w =
     (map2 with_id xs (map (\<lambda>k. make_id pre (Date_now env (ticks w + k)) (i + k)) [0..<length xs]),
      w\<lparr>ticks := ticks w + length xs\<rparr>)"
proof (induction xs arbitrary: i w)
  case Nil
  show ?case by simp
next
  case (Cons x xs)
  have "[0..<length (x # xs)] = 0 # map Suc [0..<length xs]"
    using upt_0_Suc[of "length xs"] by simp
  then show ?case
    by (simp add: Cons.IH comp_def del: upt_Suc)
qed

lemma map_objectives_0:
  "map_objectives pre env 0 xs w =
     (map2 with_id xs (local_ids pre env (ticks w) (length xs)),
      w\<lparr>ticks := ticks w + length xs\<rparr>)"
  by (simp add: map_objectives_eq local_ids_def)

lemma length_local_ids: "length (local_ids pre env t0 n) = n"
  by (simp add: local_ids_def)

lemma id_of_with_id: "id_of (with_id x s) = Some (JString s)"
  by (simp add: id_of_def with_id_def update_conv')

lemma map_id_of_tagged:
  "length ids = length xs \<Longrightarrow> map id_of (map2 with_id xs ids) = map (\<lambda>s. Some (JString s)) ids"
  by (induction xs ids rule: list_induct2') (simp_all add: id_of_with_id)

lemma Get_Set_same: "Set p k v = Inr p' \<Longrightarrow> Get p' k = Inr (Some v)"
  by (cases p) (auto simp: update_conv')

lemma Get_Set_other: "Set p k v = Inr p' \<Longrightarrow> k' \<noteq> k \<Longrightarrow> Get p' k' = Get p k'"
  by (cases p) (auto simp: update_conv')

lemma objectives_line_Inr:
  assumes "objectives_line key pre env p w = (Inr p', w')"
  shows "Get p' key =
           Inr (Some (JArray (map2 with_id (remote_list p key)
                                (local_ids pre env (ticks w) (length (remote_list p key)))) []))"
    and "\<And>k. k \<noteq> key \<Longrightarrow> Get p' k = Get p k"
    and "w' = w\<lparr>ticks := ticks w + length (remote_list p key)\<rparr>"
proof -
  from assms obtain field where g: "Get p key = Inr field"
    by (auto simp: objectives_line_def split: sum.splits)
  from assms g obtain es ps where o: "or_empty field = JArray es ps"
    by (auto simp: objectives_line_def split: jsval.splits)
  from g o have rl: "remote_list p key = es" by (simp add: remote_list_def)
  from assms g o have
    s: "Set p key (JArray (map2 with_id es (local_ids pre env (ticks w) (length es))) []) = Inr p'"
    and w': "w' = w\<lparr>ticks := ticks w + length es\<rparr>"
    by (auto simp: objectives_line_def map_objectives_0 split: if_splits)
  from Get_Set_same[OF s] rl
  show "Get p' key =
           Inr (Some (JArray (map2 with_id (remote_list p key)
                                (local_ids pre env (ticks w) (length (remote_list p key)))) []))"
    by simp
  from Get_Set_other[OF s] show "\<And>k. k \<noteq> key \<Longrightarrow> Get p' k = Get p k" by simp
  from w' rl show "w' = w\<lparr>ticks := ticks w + length (remote_list p key)\<rparr>" by simp
qed

lemma remote_list_cong: "Get p k = Get q k \<Longrightarrow> remote_list p k = remote_list q k"
  by (simp add: remote_list_def)

lemma keys_distinct:
  "cognitiveObjectives \<noteq> psychomotorObjectives"
  "cognitiveObjectives \<noteq> affectiveObjectives"
  "psychomotorObjectives \<noteq> affectiveObjectives"
  by (simp_all add: cognitiveObjectives_def psychomotorObjectives_def affectiveObjectives_def js_def)

text \<open>
  What a successful run of lines 75 to 77 leaves: each of the three properties is an
  array of the remote elements with fresh ids, and the clock was read once for each
  element, the cognitive list first.
\<close>

lemma assign_ids_Inr:
  assumes "assign_ids env parsed w = (Inr plan, w')"
  defines "c \<equiv> remote_list parsed cognitiveObjectives"
    and "p \<equiv> remote_list parsed psychomotorObjectives"
    and "a \<equiv> remote_list parsed affectiveObjectives"
  shows "Get plan cognitiveObjectives =
           Inr (Some (JArray (map2 with_id c (local_ids (js ''cog'') env (ticks w) (length c))) []))"
    and "Get plan psychomotorObjectives =
           Inr (Some (JArray (map2 with_id p
             (local_ids (js ''psy'') env (ticks w + length c) (length p))) []))"
    and "Get plan affectiveObjectives =
           Inr (Some (JArray (map2 with_id a
             (local_ids (js ''aff'') env (ticks w + length c + length p) (length a))) []))"
    and "w' = w\<lparr>ticks := ticks w + length c + length p + length a\<rparr>"
proof -
  from assms(1) obtain p1 w1 where
    l1: "objectives_line cognitiveObjectives (js ''cog'') env parsed w = (Inr p1, w1)"
    by (auto simp: assign_ids_def split: prod.splits sum.splits)
  from assms(1) l1 obtain p2 w2 where
    l2: "objectives_line psychomotorObjectives (js ''psy'') env p1 w1 = (Inr p2, w2)"
    by (auto simp: assign_ids_def split: prod.splits sum.splits)
  from assms(1) l1 l2 have
    l3: "objectives_line affectiveObjectives (js ''aff'') env p2 w2 = (Inr plan, w')"
    by (simp add: assign_ids_def)
  note k = keys_distinct keys_distinct[symmetric]
  note r1 = objectives_line_Inr[OF l1]
  note r2 = objectives_line_Inr[OF l2]
  note r3 = objectives_line_Inr[OF l3]
  have p_eq: "remote_list p1 psychomotorObjectives = p"
    unfolding p_def by (rule remote_list_cong) (simp add: r1(2) k)
  have a_eq: "remote_list p2 affectiveObjectives = a"
    unfolding a_def by (rule remote_list_cong) (simp add: r1(2) r2(2) k)
  have t1: "ticks w1 = ticks w + length c" using r1(3) by (simp add: c_def)
  have t2: "ticks w2 = ticks w + length c + length p" using r2(3) t1 p_eq by simp
  show "Get plan cognitiveObjectives =
           Inr (Some (JArray (map2 with_id c (local_ids (js ''cog'') env (ticks w) (length c))) []))"
    using r1(1) by (simp add: r3(2) r2(2) k c_def)
  show "Get plan psychomotorObjectives =
           Inr (Some (JArray (map2 with_id p
             (local_ids (js ''psy'') env (ticks w + length c) (length p))) []))"
    using r2(1) by (simp add: r3(2) k p_eq t1)
  show "Get plan affectiveObjectives =
           Inr (Some (JArray (map2 with_id a
             (local_ids (js ''aff'') env (ticks w + length c + length p) (length a))) []))"
    using r3(1) by (simp add: a_eq t2)
  show "w' = w\<lparr>ticks := ticks w + length c + length p + length a\<rparr>"
    using r1(3) r2(3) r3(3) p_eq a_eq by (simp add: c_def)
qed

text \<open>The function by the three outcomes of line 11.\<close>

lemma analyze_unfold:
  "analyzeLessonPlanWithGemini env lessonText w =
     (if credential_missing env then
        (if process env = ProcessNoEnv then (Inl (Uncaught TypeError), w)
         else (Inl (Error api_key_message),
               w\<lparr>console := console w @ [ConsoleError api_key_log None]\<rparr>))
      else
        (case try_block env lessonText w of
           (Inr parsedResult, w') \<Rightarrow> (Inr parsedResult, w')
         | (Inl error, w') \<Rightarrow>
             (Inl (Error failure_message),
              w'\<lparr>console := console w' @ [ConsoleError catch_log (Some error)]\<rparr>)))"
  by (simp add: analyzeLessonPlanWithGemini_def line_11_def credential_missing_def
      split: process_global.splits option.splits)

lemma analyze_Inr:
  assumes "analyzeLessonPlanWithGemini env lessonText w = (Inr plan, w')"
  obtains reply parsed where
    "\<not> credential_missing env"
    "generateContent env (build_request env lessonText) = Resolves (Some reply)"
    "JSON_parse (trim reply) = Some parsed"
    "assign_ids env parsed (w\<lparr>sent := sent w @ [build_request env lessonText]\<rparr>) = (Inr plan, w')"
proof -
  from assms have c: "\<not> credential_missing env"
    by (auto simp: analyze_unfold split: if_splits)
  with assms have t: "try_block env lessonText w = (Inr plan, w')"
    by (auto simp: analyze_unfold split: prod.splits sum.splits)
  then obtain reply where
    r: "generateContent env (build_request env lessonText) = Resolves (Some reply)"
    by (auto simp: try_block_def split: reply.splits option.splits)
  with t obtain parsed where p: "JSON_parse (trim reply) = Some parsed"
    by (auto simp: try_block_def split: option.splits)
  with t r have
    "assign_ids env parsed (w\<lparr>sent := sent w @ [build_request env lessonText]\<rparr>) = (Inr plan, w')"
    by (simp add: try_block_def)
  with c r p that show thesis by blast
qed

subsection \<open>Lists of fresh identifiers\<close>

lemma local_ids_mem:
  "s \<in> set (local_ids pre env t0 n) \<longleftrightarrow> (\<exists>k<n. s = make_id pre (Date_now env (t0 + k)) k)"
  by (auto simp: local_ids_def)

lemma distinct_local_ids: "distinct (local_ids pre env t0 n)"
  unfolding local_ids_def
  by (rule distinct_map[THEN iffD2]) (auto intro!: inj_onI dest: make_id_inj)

lemma local_ids_disjoint:
  assumes "length p = length q" "p \<noteq> q"
  shows "set (local_ids p env t0 n) \<inter> set (local_ids q env' t1 m) = {}"
  using assms by (auto simp: local_ids_mem dest: make_id_inj)

lemma prefixes:
  "length (js ''cog'') = length (js ''psy'')" "js ''cog'' \<noteq> js ''psy''"
  "length (js ''cog'') = length (js ''aff'')" "js ''cog'' \<noteq> js ''aff''"
  "length (js ''psy'') = length (js ''aff'')" "js ''psy'' \<noteq> js ''aff''"
  by (simp_all add: js_def)

lemma objective_ids_eq:
  assumes "Get plan key = Inr (Some (JArray (map2 with_id xs (local_ids pre env t0 (length xs))) []))"
  shows "objectives_of plan key = map2 with_id xs (local_ids pre env t0 (length xs))"
    and "objective_ids plan key = map (\<lambda>s. Some (JString s)) (local_ids pre env t0 (length xs))"
proof -
  from assms show o: "objectives_of plan key = map2 with_id xs (local_ids pre env t0 (length xs))"
    by (simp add: objectives_of_def)
  show "objective_ids plan key = map (\<lambda>s. Some (JString s)) (local_ids pre env t0 (length xs))"
    unfolding objective_ids_def o by (rule map_id_of_tagged) (simp add: length_local_ids)
qed

text \<open>The ids of a returned object, list by list.\<close>

lemma analyze_ids:
  assumes "analyzeLessonPlanWithGemini env lessonText w = (Inr plan, w')"
  obtains nc np na where
    "objective_ids plan cognitiveObjectives =
       map (\<lambda>s. Some (JString s)) (local_ids (js ''cog'') env (ticks w) nc)"
    "objective_ids plan psychomotorObjectives =
       map (\<lambda>s. Some (JString s)) (local_ids (js ''psy'') env (ticks w + nc) np)"
    "objective_ids plan affectiveObjectives =
       map (\<lambda>s. Some (JString s)) (local_ids (js ''aff'') env (ticks w + nc + np) na)"
    "ticks w' = ticks w + nc + np + na"
proof -
  from assms obtain reply parsed where
    a: "assign_ids env parsed (w\<lparr>sent := sent w @ [build_request env lessonText]\<rparr>) = (Inr plan, w')"
    by (rule analyze_Inr)
  note r = assign_ids_Inr[OF a]
  show thesis
  proof (rule that)
    show "objective_ids plan cognitiveObjectives =
       map (\<lambda>s. Some (JString s))
         (local_ids (js ''cog'') env (ticks w) (length (remote_list parsed cognitiveObjectives)))"
      using objective_ids_eq(2)[OF r(1)] by simp
    show "objective_ids plan psychomotorObjectives =
       map (\<lambda>s. Some (JString s))
         (local_ids (js ''psy'') env (ticks w + length (remote_list parsed cognitiveObjectives))
           (length (remote_list parsed psychomotorObjectives)))"
      using objective_ids_eq(2)[OF r(2)] by simp
    show "objective_ids plan affectiveObjectives =
       map (\<lambda>s. Some (JString s))
         (local_ids (js ''aff'') env
           (ticks w + length (remote_list parsed cognitiveObjectives) +
            length (remote_list parsed psychomotorObjectives))
           (length (remote_list parsed affectiveObjectives)))"
      using objective_ids_eq(2)[OF r(3)] by simp
    show "ticks w' = ticks w + length (remote_list parsed cognitiveObjectives) +
        length (remote_list parsed psychomotorObjectives) +
        length (remote_list parsed affectiveObjectives)"
      using r(4) by simp
  qed
qed

lemma distinct_three_lists:
  "distinct (local_ids (js ''cog'') env t0 nc @ local_ids (js ''psy'') env t1 np @
             local_ids (js ''aff'') env t2 na)"
  using local_ids_disjoint[OF prefixes(1,2), of env t0 nc env t1 np]
    local_ids_disjoint[OF prefixes(3,4), of env t0 nc env t2 na]
    local_ids_disjoint[OF prefixes(5,6), of env t1 np env t2 na]
  by (simp add: distinct_local_ids Int_Un_distrib)

lemma inj_Some_JString: "inj (\<lambda>s. Some (JString s))"
  by (simp add: inj_def)

subsection \<open>Trimming\<close>

lemma trim_surrounded:
  assumes "\<forall>c\<in>set pre. js_whitespace c" "\<forall>c\<in>set post. js_whitespace c"
  shows "trim (pre @ doc @ post) = trim doc"
proof -
  have 1: "dropWhile js_whitespace (pre @ doc @ post) = dropWhile js_whitespace (doc @ post)"
    by (rule dropWhile_append2) (use assms(1) in auto)
  show ?thesis
  proof (cases "\<forall>c\<in>set doc. js_whitespace c")
    case True
    with assms(2) have a: "dropWhile js_whitespace (doc @ post) = []"
      and b: "dropWhile js_whitespace doc = []" by simp_all
    show ?thesis unfolding trim_def 1 a b by simp
  next
    case False
    then have 2: "dropWhile js_whitespace (doc @ post) = dropWhile js_whitespace doc @ post"
      by (auto simp: dropWhile_append)
    have "dropWhile js_whitespace (rev post @ rev (dropWhile js_whitespace doc)) =
            dropWhile js_whitespace (rev (dropWhile js_whitespace doc))"
      by (rule dropWhile_append2) (use assms(2) in auto)
    then show ?thesis by (simp add: trim_def 1 2)
  qed
qed

lemma map_objectives_generateContent:
  "map_objectives pre (env\<lparr>generateContent := g\<rparr>) i xs w = map_objectives pre env i xs w"
  by (simp add: map_objectives_eq)

lemma objectives_line_generateContent:
  "objectives_line key pre (env\<lparr>generateContent := g\<rparr>) p w = objectives_line key pre env p w"
  unfolding objectives_line_def map_objectives_generateContent ..

lemma assign_ids_generateContent:
  "assign_ids (env\<lparr>generateContent := g\<rparr>) parsed w = assign_ids env parsed w"
  unfolding assign_ids_def objectives_line_generateContent ..

section \<open>The example runs, evaluated\<close>

lemmas lex_defs = js_def json_ws_def is_digit_def lex_escape_def hex_value_def simple_escape_def
  lex_number_def lex_sign_def lex_int_def lex_frac_def lex_exp_def nat_of_digits_def

lemmas parse_defs = JSON_parse_def value_start_def close_array_def close_object_def
  key_start_def separator_def

lemmas key_defs = cognitiveObjectives_def psychomotorObjectives_def affectiveObjectives_def

lemma example_reply_parsed: "JSON_parse (trim example_reply) = Some example_parsed"
  by (simp add: example_reply_def example_parsed_def trim_def js_whitespace_def
      lex_defs parse_defs key_defs)

lemma example_assign:
  "assign_ids env example_parsed w =
     (Inr (example_plan (Date_now env (ticks w)) (Date_now env (Suc (ticks w)))
             (Date_now env (Suc (Suc (ticks w))))),
      w\<lparr>ticks := Suc (Suc (Suc (ticks w)))\<rparr>)"
  by (simp add: assign_ids_def objectives_line_def example_parsed_def example_plan_def
      or_empty_def with_id_def key_defs js_def)

lemma example_env_ready: "\<not> credential_missing (example_env r clock)"
  by (simp add: credential_missing_def example_env_def js_def)

lemma example_request:
  "generateContent (example_env r clock) (build_request (example_env r clock) lessonText) = r"
  by (simp add: example_env_def)

lemma example_run:
  "analyzeLessonPlanWithGemini (example_env (Resolves (Some example_reply)) clock) lessonText w =
     (Inr (example_plan (clock (ticks w)) (clock (Suc (ticks w))) (clock (Suc (Suc (ticks w))))),
      w\<lparr>sent := sent w @ [build_request (example_env (Resolves (Some example_reply)) clock) lessonText],
        ticks := Suc (Suc (Suc (ticks w)))\<rparr>)"
proof -
  have g: "generateContent (example_env (Resolves (Some example_reply)) clock) q =
             Resolves (Some example_reply)" for q
    by (simp add: example_env_def)
  have d: "Date_now (example_env (Resolves (Some example_reply)) clock) = clock"
    by (simp add: example_env_def)
  show ?thesis
    by (simp add: analyze_unfold example_env_ready try_block_def g
        example_reply_parsed example_assign d)
qed

lemma example_ids:
  "objective_ids (example_plan t0 t1 t2) cognitiveObjectives =
     [Some (JString (make_id (js ''cog'') t0 0)), Some (JString (make_id (js ''cog'') t1 1))]"
  "objective_ids (example_plan t0 t1 t2) psychomotorObjectives =
     [Some (JString (make_id (js ''psy'') t2 0))]"
  "objective_ids (example_plan t0 t1 t2) affectiveObjectives = []"
  by (simp_all add: objective_ids_def objectives_of_def example_plan_def id_of_def key_defs js_def)

lemma example_make_ids:
  "make_id (js ''cog'') 1730000000000 0 = js ''cog-1730000000000-0''"
  "make_id (js ''cog'') 1730000000000 1 = js ''cog-1730000000000-1''"
  "make_id (js ''cog'') 1730000000001 1 = js ''cog-1730000000001-1''"
  "make_id (js ''psy'') 1730000000000 0 = js ''psy-1730000000000-0''"
  "make_id (js ''psy'') 1730000000002 0 = js ''psy-1730000000002-0''"
  "make_id (js ''cog'') 1730000000003 0 = js ''cog-1730000000003-0''"
  "make_id (js ''cog'') 1730000000004 1 = js ''cog-1730000000004-1''"
  "make_id (js ''psy'') 1730000000005 0 = js ''psy-1730000000005-0''"
  by (simp_all add: make_id_def Number_toString_def digits.simps js_def)

section \<open>Effects of a call\<close>

lemma objectives_line_sent: "sent (snd (objectives_line key pre env p w)) = sent w"
  by (simp add: objectives_line_def map_objectives_0 split: sum.splits jsval.splits)

lemma assign_ids_sent: "sent (snd (assign_ids env p w)) = sent w"
proof -
  have s: "sent w1 = sent w0" if "objectives_line key pre env q w0 = (r, w1)" for key pre q w0 r w1
    using objectives_line_sent[of key pre env q w0] that by simp
  show ?thesis
    by (auto simp: assign_ids_def objectives_line_sent split: prod.splits sum.splits dest!: s)
qed

lemma try_block_sent:
  "sent (snd (try_block env lessonText w)) = sent w @ [build_request env lessonText]"
  by (simp add: try_block_def assign_ids_sent split: reply.splits option.splits)

lemma analyze_sent:
  "\<not> credential_missing env \<Longrightarrow>
   sent (snd (analyzeLessonPlanWithGemini env lessonText w)) =
     sent w @ [build_request env lessonText]"
  using try_block_sent[of env lessonText w]
  by (auto simp: analyze_unfold split: prod.splits sum.splits)

text \<open>Whatever the body of \<^verbatim>\<open>try\<close> throws is logged and replaced by one message.\<close>

lemma analyze_caught:
  assumes "\<not> credential_missing env" "try_block env lessonText w = (Inl e, w1)"
  shows "analyzeLessonPlanWithGemini env lessonText w =
           (Inl (Error failure_message),
            w1\<lparr>console := console w1 @ [ConsoleError catch_log (Some e)]\<rparr>)"
  using assms by (simp add: analyze_unfold)

lemma try_block_Rejects:
  assumes "generateContent env (build_request env lessonText) = Rejects e"
  shows "try_block env lessonText w =
           (Inl (Rejected e), w\<lparr>sent := sent w @ [build_request env lessonText]\<rparr>)"
  using assms by (simp add: try_block_def)

lemma try_block_unparseable:
  assumes "generateContent env (build_request env lessonText) = Resolves (Some reply)"
    "JSON_parse (trim reply) = None"
  shows "try_block env lessonText w =
           (Inl SyntaxError, w\<lparr>sent := sent w @ [build_request env lessonText]\<rparr>)"
  using assms by (simp add: try_block_def)

section \<open>The claims\<close>

text \<open>
  C10. For every lesson text, when a credential is configured the call issues one
  request whose instruction text is the fixed head of the prompt, then the lesson text
  itself, unchanged and in one piece, then the fixed tail.
\<close>

theorem prompt_holds_lesson_text_verbatim:
  assumes "\<not> credential_missing env"
  shows "sent (snd (analyzeLessonPlanWithGemini env lessonText w)) =
           sent w @ [build_request env lessonText] \<and>
         contents (build_request env lessonText) = prompt_head @ lessonText @ prompt_tail"
  using analyze_sent[OF assms] by (simp add: build_request_def prompt_def)

theorem prompt_holds_lesson_text_verbatim_witness:
  "map contents
     (sent (snd (analyzeLessonPlanWithGemini (example_env (Resolves (Some example_reply)) ticking)
                   (js ''poetry'') new_world))) =
     [prompt_head @ js ''poetry'' @ prompt_tail]"
  using prompt_holds_lesson_text_verbatim[OF example_env_ready,
      of "Resolves (Some example_reply)" ticking "js ''poetry''" new_world]
  by (simp add: new_world_def)

text \<open>
  What the check of lines 11 to 14 does where it applies: when there is no
  \<^verbatim>\<open>process\<close>, or \<^verbatim>\<open>process.env\<close> holds no \<^verbatim>\<open>API_KEY\<close> or an empty one, the call throws an
  Error with the user-facing message of line 13, which is not empty and is not the
  message of the generic failure. And without a credential no request is issued,
  however line 11 ends.
\<close>

lemma missing_credential_guarded:
  assumes "process env = ProcessUndefined \<or> process env = ProcessEnv None \<or>
           process env = ProcessEnv (Some [])"
  shows "analyzeLessonPlanWithGemini env lessonText w =
           (Inl (Error api_key_message),
            w\<lparr>console := console w @ [ConsoleError api_key_log None]\<rparr>) \<and>
         api_key_message \<noteq> [] \<and> api_key_message \<noteq> failure_message"
  using assms
  by (auto simp: analyze_unfold credential_missing_def api_key_message_def failure_message_def
      js_def)

lemma missing_credential_no_request:
  assumes "credential_missing env"
  shows "sent (snd (analyzeLessonPlanWithGemini env lessonText w)) = sent w"
  using assms by (simp add: analyze_unfold)

text \<open>
  C2. The claim fails for a \<^verbatim>\<open>process\<close> that is defined and has no \<^verbatim>\<open>env\<close>: no credential
  is configured, and reading \<^verbatim>\<open>process.env.API_KEY\<close> on line 11 throws a TypeError
  outside \<^verbatim>\<open>try\<close>. The caller gets that TypeError and not the Error with the
  user-facing message, nothing is logged, and no request is issued.
\<close>

theorem process_without_env_throws_TypeError:
  "credential_missing
     (example_env (Resolves (Some example_reply)) ticking\<lparr>process := ProcessNoEnv\<rparr>) \<and>
   analyzeLessonPlanWithGemini
     (example_env (Resolves (Some example_reply)) ticking\<lparr>process := ProcessNoEnv\<rparr>)
     (js ''poetry'') new_world = (Inl (Uncaught TypeError), new_world) \<and>
   analyzeLessonPlanWithGemini
     (example_env (Resolves (Some example_reply)) ticking\<lparr>process := ProcessUndefined\<rparr>)
     (js ''poetry'') new_world =
     (Inl (Error api_key_message),
      \<lparr>sent = [], console = [ConsoleError api_key_log None], ticks = 0\<rparr>)"
  by (simp add: analyzeLessonPlanWithGemini_def line_11_def credential_missing_def
      new_world_def)

text \<open>
  C6. For every call with a credential in which the remote call rejects, the function
  issues that one request and no other, logs what it caught, and throws the generic
  failure to the caller.
\<close>

theorem remote_rejection_is_rethrown:
  assumes "\<not> credential_missing env"
    and "generateContent env (build_request env lessonText) = Rejects e"
  shows "analyzeLessonPlanWithGemini env lessonText w =
           (Inl (Error failure_message),
            w\<lparr>sent := sent w @ [build_request env lessonText],
              console := console w @ [ConsoleError catch_log (Some (Rejected e))]\<rparr>)"
  using analyze_caught[OF assms(1) try_block_Rejects[OF assms(2)], of w] by simp

theorem remote_rejection_is_rethrown_witness:
  "analyzeLessonPlanWithGemini (example_env (Rejects (js ''503'')) ticking) (js ''poetry'') new_world =
     (Inl (Error failure_message),
      \<lparr>sent = [build_request (example_env (Rejects (js ''503'')) ticking) (js ''poetry'')],
       console = [ConsoleError catch_log (Some (Rejected (js ''503'')))],
       ticks = 0\<rparr>)"
proof -
  have g: "generateContent (example_env (Rejects (js ''503'')) ticking)
             (build_request (example_env (Rejects (js ''503'')) ticking) (js ''poetry'')) =
           Rejects (js ''503'')"
    by (simp add: example_env_def)
  from remote_rejection_is_rethrown[OF example_env_ready g, of new_world]
  show ?thesis by (simp add: new_world_def)
qed

text \<open>
  C4, as the code has it. For every reply whose text, once trimmed, JSON.parse
  rejects, the function throws the generic failure, the same Error with the same
  message as for a rejected remote call, after logging the SyntaxError; the caller
  receives no object.
\<close>

theorem unparseable_reply_is_generic_failure:
  assumes "\<not> credential_missing env"
    and "generateContent env (build_request env lessonText) = Resolves (Some reply)"
    and "JSON_parse (trim reply) = None"
  shows "analyzeLessonPlanWithGemini env lessonText w =
           (Inl (Error failure_message),
            w\<lparr>sent := sent w @ [build_request env lessonText],
              console := console w @ [ConsoleError catch_log (Some SyntaxError)]\<rparr>)"
  using analyze_caught[OF assms(1) try_block_unparseable[OF assms(2,3)], of w] by simp

lemma oops_unparseable: "JSON_parse (trim (js ''oops'')) = None"
  by (simp add: trim_def js_whitespace_def lex_defs parse_defs)

theorem unparseable_reply_is_generic_failure_witness:
  "fst (analyzeLessonPlanWithGemini (example_env (Resolves (Some (js ''oops''))) ticking)
          (js ''poetry'') new_world) = Inl (Error failure_message)"
proof -
  have g: "generateContent (example_env (Resolves (Some (js ''oops''))) ticking)
             (build_request (example_env (Resolves (Some (js ''oops''))) ticking) (js ''poetry'')) =
           Resolves (Some (js ''oops''))"
    by (simp add: example_env_def)
  from unparseable_reply_is_generic_failure[OF example_env_ready g oops_unparseable, of new_world]
  show ?thesis by simp
qed

text \<open>
  C4 as stated fails twice. The reply \<^verbatim>\<open>oops\<close> is not JSON, and the caller gets
  exactly the error it gets when the remote call rejects: there is no error kind of
  its own. And the reply that is a byte order mark followed by \<^verbatim>\<open>{}\<close> is not JSON as
  it stands, yet the call returns an object, because line 71 trims the mark away.
\<close>

lemma bom_object_parsed:
  "JSON_parse (0xFEFF # js ''{}'') = None"
  "JSON_parse (trim (0xFEFF # js ''{}'')) = Some (JObject [])"
  by (simp_all add: trim_def js_whitespace_def lex_defs parse_defs)

lemma empty_object_assign:
  "assign_ids env (JObject []) w =
     (Inr (JObject [(cognitiveObjectives, JArray [] []), (psychomotorObjectives, JArray [] []),
                    (affectiveObjectives, JArray [] [])]), w)"
  by (simp add: assign_ids_def objectives_line_def or_empty_def key_defs js_def)

theorem format_error_is_not_a_distinct_kind:
  "JSON_parse (trim (js ''oops'')) = None \<and>
   fst (analyzeLessonPlanWithGemini (example_env (Resolves (Some (js ''oops''))) ticking)
          (js ''poetry'') new_world) =
   fst (analyzeLessonPlanWithGemini (example_env (Rejects (js ''503'')) ticking)
          (js ''poetry'') new_world) \<and>
   JSON_parse (0xFEFF # js ''{}'') = None \<and>
   fst (analyzeLessonPlanWithGemini
          (example_env (Resolves (Some (0xFEFF # js ''{}''))) ticking)
          (js ''poetry'') new_world) =
   Inr (JObject [(cognitiveObjectives, JArray [] []), (psychomotorObjectives, JArray [] []),
                 (affectiveObjectives, JArray [] [])])"
proof -
  have 1: "try_block (example_env (Resolves (Some (js ''oops''))) ticking) (js ''poetry'') new_world =
      (Inl SyntaxError,
       new_world\<lparr>sent := sent new_world @
         [build_request (example_env (Resolves (Some (js ''oops''))) ticking) (js ''poetry'')]\<rparr>)"
    by (rule try_block_unparseable[OF _ oops_unparseable]) (simp add: example_env_def)
  have 2: "try_block (example_env (Rejects (js ''503'')) ticking) (js ''poetry'') new_world =
      (Inl (Rejected (js ''503'')),
       new_world\<lparr>sent := sent new_world @
         [build_request (example_env (Rejects (js ''503'')) ticking) (js ''poetry'')]\<rparr>)"
    by (rule try_block_Rejects) (simp add: example_env_def)
  have "fst (analyzeLessonPlanWithGemini (example_env (Resolves (Some (js ''oops''))) ticking)
          (js ''poetry'') new_world) =
        fst (analyzeLessonPlanWithGemini (example_env (Rejects (js ''503'')) ticking)
          (js ''poetry'') new_world)"
    by (simp add: analyze_caught[OF example_env_ready 1] analyze_caught[OF example_env_ready 2])
  moreover have "fst (analyzeLessonPlanWithGemini
          (example_env (Resolves (Some (0xFEFF # js ''{}''))) ticking)
          (js ''poetry'') new_world) =
   Inr (JObject [(cognitiveObjectives, JArray [] []), (psychomotorObjectives, JArray [] []),
                 (affectiveObjectives, JArray [] [])])"
    by (simp add: analyze_unfold example_env_ready try_block_def example_request
        bom_object_parsed(2) empty_object_assign)
  ultimately show ?thesis
    using oops_unparseable bom_object_parsed(1) by (intro conjI)
qed

lemma example_run_ticking:
  "analyzeLessonPlanWithGemini (example_env (Resolves (Some example_reply)) ticking)
     (js ''poetry'') new_world =
     (Inr (example_plan 1730000000000 1730000000001 1730000000002),
      \<lparr>sent = [build_request (example_env (Resolves (Some example_reply)) ticking) (js ''poetry'')],
       console = [], ticks = 3\<rparr>)"
  by (simp add: example_run new_world_def ticking_def)

lemma example_all_ids:
  "all_ids (example_plan t0 t1 t2) =
     [Some (JString (make_id (js ''cog'') t0 0)), Some (JString (make_id (js ''cog'') t1 1)),
      Some (JString (make_id (js ''psy'') t2 0))]"
  by (simp add: all_ids_def example_ids)

text \<open>
  C1. For every call that returns an object, every id in the three objective lists is
  a non-empty string, the ids of each list are pairwise distinct, and no id occurs
  twice in the three lists taken together.
\<close>

theorem objective_ids_nonempty_and_unique:
  assumes "analyzeLessonPlanWithGemini env lessonText w = (Inr plan, w')"
  shows "(\<forall>x\<in>set (all_ids plan). \<exists>s. x = Some (JString s) \<and> s \<noteq> []) \<and>
         distinct (objective_ids plan cognitiveObjectives) \<and>
         distinct (objective_ids plan psychomotorObjectives) \<and>
         distinct (objective_ids plan affectiveObjectives) \<and>
         distinct (all_ids plan)"
proof -
  from assms obtain nc np na where
    c: "objective_ids plan cognitiveObjectives =
          map (\<lambda>s. Some (JString s)) (local_ids (js ''cog'') env (ticks w) nc)"
    and p: "objective_ids plan psychomotorObjectives =
          map (\<lambda>s. Some (JString s)) (local_ids (js ''psy'') env (ticks w + nc) np)"
    and a: "objective_ids plan affectiveObjectives =
          map (\<lambda>s. Some (JString s)) (local_ids (js ''aff'') env (ticks w + nc + np) na)"
    by (rule analyze_ids)
  have all: "all_ids plan =
      map (\<lambda>s. Some (JString s))
        (local_ids (js ''cog'') env (ticks w) nc @ local_ids (js ''psy'') env (ticks w + nc) np @
         local_ids (js ''aff'') env (ticks w + nc + np) na)"
    by (simp add: all_ids_def c p a)
  have inj: "inj_on (\<lambda>s. Some (JString s)) A" for A
    by (rule inj_onI) simp
  have ne: "s \<noteq> []" if "s \<in> set (local_ids q env t n)" for s q t n
    using that make_id_nonempty by (auto simp: local_ids_mem)
  have "\<forall>x\<in>set (all_ids plan). \<exists>s. x = Some (JString s) \<and> s \<noteq> []"
  proof
    fix x assume "x \<in> set (all_ids plan)"
    then obtain s where x: "x = Some (JString s)"
      and "s \<in> set (local_ids (js ''cog'') env (ticks w) nc) \<or>
           s \<in> set (local_ids (js ''psy'') env (ticks w + nc) np) \<or>
           s \<in> set (local_ids (js ''aff'') env (ticks w + nc + np) na)"
      unfolding all by auto
    with ne have "s \<noteq> []" by blast
    with x show "\<exists>s. x = Some (JString s) \<and> s \<noteq> []" by blast
  qed
  moreover have "distinct (all_ids plan)"
    unfolding all by (simp only: distinct_map distinct_three_lists inj simp_thms)
  moreover have "distinct (objective_ids plan cognitiveObjectives)"
    "distinct (objective_ids plan psychomotorObjectives)"
    "distinct (objective_ids plan affectiveObjectives)"
    unfolding c p a by (simp_all only: distinct_map distinct_local_ids inj simp_thms)
  ultimately show ?thesis by simp
qed

theorem objective_ids_nonempty_and_unique_witness:
  "all_ids (example_plan 1730000000000 1730000000001 1730000000002) =
     [Some (JString (js ''cog-1730000000000-0'')), Some (JString (js ''cog-1730000000001-1'')),
      Some (JString (js ''psy-1730000000002-0''))] \<and>
   distinct (all_ids (example_plan 1730000000000 1730000000001 1730000000002))"
proof -
  from objective_ids_nonempty_and_unique[OF example_run_ticking]
  have "distinct (all_ids (example_plan 1730000000000 1730000000001 1730000000002))"
    by (elim conjE)
  then show ?thesis
    by (simp only: example_all_ids example_make_ids simp_thms)
qed

text \<open>Lines 75 to 77 run through on an object whose three properties they accept.\<close>

lemma objectives_line_returns:
  assumes "is_object p" "absent_or_list p key"
  obtains p' w' where "objectives_line key pre env p w = (Inr p', w')" "is_object p'"
proof -
  from assms(1) obtain f where g: "Get p key = Inr f"
    by (cases p) (simp_all add: is_object_def)
  from assms(2) g obtain es ps where
    o: "or_empty f = JArray es ps" and m: "map_of ps (js ''map'') = None"
    by (auto simp: absent_or_list_def or_empty_def split: option.splits jsval.splits)
  from assms(1) obtain p' where
    s: "Set p key (JArray (map2 with_id es (local_ids pre env (ticks w) (length es))) []) = Inr p'"
    and i: "is_object p'"
    by (cases p) (simp_all add: is_object_def)
  from g o m s have "objectives_line key pre env p w = (Inr p', w\<lparr>ticks := ticks w + length es\<rparr>)"
    by (simp add: objectives_line_def map_objectives_0)
  with i that show thesis by blast
qed

lemma absent_or_list_cong: "Get p k = Get q k \<Longrightarrow> absent_or_list p k = absent_or_list q k"
  by (simp add: absent_or_list_def)

lemma assign_ids_returns:
  assumes "is_object parsed"
    and "absent_or_list parsed cognitiveObjectives"
    and "absent_or_list parsed psychomotorObjectives"
    and "absent_or_list parsed affectiveObjectives"
  obtains plan w' where "assign_ids env parsed w = (Inr plan, w')"
proof -
  note k = keys_distinct keys_distinct[symmetric]
  from assms(1,2) obtain p1 w1 where
    l1: "objectives_line cognitiveObjectives (js ''cog'') env parsed w = (Inr p1, w1)"
    and i1: "is_object p1"
    by (rule objectives_line_returns)
  have "absent_or_list p1 psychomotorObjectives"
    using assms(3) absent_or_list_cong[of p1 psychomotorObjectives parsed]
    by (simp add: objectives_line_Inr(2)[OF l1] k)
  with i1 obtain p2 w2 where
    l2: "objectives_line psychomotorObjectives (js ''psy'') env p1 w1 = (Inr p2, w2)"
    and i2: "is_object p2"
    by (rule objectives_line_returns)
  have "absent_or_list p2 affectiveObjectives"
    using assms(4) absent_or_list_cong[of p2 affectiveObjectives parsed]
    by (simp add: objectives_line_Inr(2)[OF l1] objectives_line_Inr(2)[OF l2] k)
  with i2 obtain p3 w3 where
    l3: "objectives_line affectiveObjectives (js ''aff'') env p2 w2 = (Inr p3, w3)"
    by (rule objectives_line_returns)
  from l1 l2 l3 have "assign_ids env parsed w = (Inr p3, w3)"
    by (simp add: assign_ids_def)
  then show thesis by (rule that)
qed

text \<open>
  C3. For every reply that parses to a value without one of the three objective
  properties: if the call returns an object, then that property of the object is an
  empty array; and the call does return such an object when a credential is
  configured, the parsed value is an object or an array, and what it holds under each
  of the three keys is absent, falsy or an array.
\<close>

theorem omitted_list_is_empty_array:
  assumes "generateContent env (build_request env lessonText) = Resolves (Some reply)"
    and "JSON_parse (trim reply) = Some parsed"
    and "key = cognitiveObjectives \<or> key = psychomotorObjectives \<or> key = affectiveObjectives"
    and "Get parsed key = Inr None"
  shows "(\<forall>plan w'. analyzeLessonPlanWithGemini env lessonText w = (Inr plan, w') \<longrightarrow>
            Get plan key = Inr (Some (JArray [] []))) \<and>
         (\<not> credential_missing env \<and> is_object parsed \<and>
          absent_or_list parsed cognitiveObjectives \<and>
          absent_or_list parsed psychomotorObjectives \<and>
          absent_or_list parsed affectiveObjectives \<longrightarrow>
            (\<exists>plan w'. analyzeLessonPlanWithGemini env lessonText w = (Inr plan, w') \<and>
               Get plan key = Inr (Some (JArray [] []))))"
proof -
  from assms(4) have e: "remote_list parsed key = []"
    by (simp add: remote_list_def or_empty_def)
  have empty: "Get plan key = Inr (Some (JArray [] []))"
    if a: "assign_ids env parsed (w\<lparr>sent := sent w @ [build_request env lessonText]\<rparr>) =
             (Inr plan, w')" for plan w'
    using assms(3) assign_ids_Inr(1-3)[OF a] e by (auto simp: local_ids_def)
  have A: "Get plan key = Inr (Some (JArray [] []))"
    if r: "analyzeLessonPlanWithGemini env lessonText w = (Inr plan, w')" for plan w'
  proof -
    from r obtain reply' parsed' where
      "generateContent env (build_request env lessonText) = Resolves (Some reply')"
      "JSON_parse (trim reply') = Some parsed'"
      "assign_ids env parsed' (w\<lparr>sent := sent w @ [build_request env lessonText]\<rparr>) = (Inr plan, w')"
      by (rule analyze_Inr)
    with assms(1,2) have
      "assign_ids env parsed (w\<lparr>sent := sent w @ [build_request env lessonText]\<rparr>) = (Inr plan, w')"
      by simp
    then show ?thesis by (rule empty)
  qed
  have B: "\<exists>plan w'. analyzeLessonPlanWithGemini env lessonText w = (Inr plan, w') \<and>
             Get plan key = Inr (Some (JArray [] []))"
    if c: "\<not> credential_missing env" and o: "is_object parsed"
      and l: "absent_or_list parsed cognitiveObjectives"
        "absent_or_list parsed psychomotorObjectives"
        "absent_or_list parsed affectiveObjectives"
  proof -
    from o l obtain plan w' where
      a: "assign_ids env parsed (w\<lparr>sent := sent w @ [build_request env lessonText]\<rparr>) =
            (Inr plan, w')"
      by (rule assign_ids_returns)
    with assms(1,2) have "try_block env lessonText w = (Inr plan, w')"
      by (simp add: try_block_def)
    with c have "analyzeLessonPlanWithGemini env lessonText w = (Inr plan, w')"
      by (simp add: analyze_unfold)
    with empty[OF a] show ?thesis by blast
  qed
  from A B show ?thesis by blast
qed

lemma example_parsed_accepted:
  "is_object example_parsed"
  "absent_or_list example_parsed cognitiveObjectives"
  "absent_or_list example_parsed psychomotorObjectives"
  "absent_or_list example_parsed affectiveObjectives"
  "Get example_parsed affectiveObjectives = Inr None"
  by (simp_all add: is_object_def absent_or_list_def example_parsed_def key_defs js_def)

theorem omitted_list_is_empty_array_witness:
  "analyzeLessonPlanWithGemini (example_env (Resolves (Some example_reply)) ticking)
     (js ''poetry'') new_world =
     (Inr (example_plan 1730000000000 1730000000001 1730000000002),
      \<lparr>sent = [build_request (example_env (Resolves (Some example_reply)) ticking) (js ''poetry'')],
       console = [], ticks = 3\<rparr>) \<and>
   Get example_parsed affectiveObjectives = Inr None \<and>
   Get (example_plan 1730000000000 1730000000001 1730000000002) affectiveObjectives =
     Inr (Some (JArray [] []))"
proof -
  have k: "affectiveObjectives = cognitiveObjectives \<or> affectiveObjectives = psychomotorObjectives \<or>
           affectiveObjectives = affectiveObjectives"
    by simp
  note t = omitted_list_is_empty_array[where w = new_world and lessonText = "js ''poetry''"
      and env = "example_env (Resolves (Some example_reply)) ticking",
      OF example_request example_reply_parsed k example_parsed_accepted(5)]
  have "\<exists>plan w'.
      analyzeLessonPlanWithGemini (example_env (Resolves (Some example_reply)) ticking)
        (js ''poetry'') new_world = (Inr plan, w') \<and>
      Get plan affectiveObjectives = Inr (Some (JArray [] []))"
    by (rule t[THEN conjunct2, THEN mp])
       (intro conjI example_env_ready example_parsed_accepted(1-4))
  with example_run_ticking example_parsed_accepted(5) show ?thesis by simp
qed

text \<open>
  C7. For every call that returns an object, each element of each objective list is
  the remote element at that index with its \<^verbatim>\<open>id\<close> set to the identifier made from the
  list's prefix, the clock and the index; whatever \<^verbatim>\<open>id\<close> the remote element had is
  overwritten.
\<close>

theorem ids_are_made_locally:
  assumes "generateContent env (build_request env lessonText) = Resolves (Some reply)"
    and "JSON_parse (trim reply) = Some parsed"
    and "analyzeLessonPlanWithGemini env lessonText w = (Inr plan, w')"
    and "c = remote_list parsed cognitiveObjectives"
    and "p = remote_list parsed psychomotorObjectives"
    and "a = remote_list parsed affectiveObjectives"
  shows "objectives_of plan cognitiveObjectives =
           map2 with_id c (local_ids (js ''cog'') env (ticks w) (length c)) \<and>
         objectives_of plan psychomotorObjectives =
           map2 with_id p (local_ids (js ''psy'') env (ticks w + length c) (length p)) \<and>
         objectives_of plan affectiveObjectives =
           map2 with_id a (local_ids (js ''aff'') env (ticks w + length c + length p) (length a)) \<and>
         objective_ids plan cognitiveObjectives =
           map (\<lambda>s. Some (JString s)) (local_ids (js ''cog'') env (ticks w) (length c)) \<and>
         objective_ids plan psychomotorObjectives =
           map (\<lambda>s. Some (JString s)) (local_ids (js ''psy'') env (ticks w + length c) (length p)) \<and>
         objective_ids plan affectiveObjectives =
           map (\<lambda>s. Some (JString s))
             (local_ids (js ''aff'') env (ticks w + length c + length p) (length a)) \<and>
         (\<forall>x s. id_of (with_id x s) = Some (JString s))"
proof -
  from assms(3) obtain reply' parsed' where
    "generateContent env (build_request env lessonText) = Resolves (Some reply')"
    "JSON_parse (trim reply') = Some parsed'"
    "assign_ids env parsed' (w\<lparr>sent := sent w @ [build_request env lessonText]\<rparr>) = (Inr plan, w')"
    by (rule analyze_Inr)
  with assms(1,2) have
    "assign_ids env parsed (w\<lparr>sent := sent w @ [build_request env lessonText]\<rparr>) = (Inr plan, w')"
    by simp
  note r = assign_ids_Inr(1-3)[OF this]
  show ?thesis
    unfolding assms(4-6)
    using objective_ids_eq[OF r(1)] objective_ids_eq[OF r(2)] objective_ids_eq[OF r(3)]
    by (simp add: id_of_with_id)
qed

lemma example_remote_cognitive:
  "remote_list example_parsed cognitiveObjectives =
     [JObject [(js ''id'', JString (js ''remote-1'')), (js ''level'', JString (js ''x''))],
      JObject [(js ''level'', JString (js ''y''))]]"
  by (simp add: remote_list_def example_parsed_def or_empty_def key_defs js_def)

theorem ids_are_made_locally_witness:
  "map id_of (remote_list example_parsed cognitiveObjectives) =
     [Some (JString (js ''remote-1'')), None] \<and>
   objective_ids (example_plan 1730000000000 1730000000001 1730000000002) cognitiveObjectives =
     map (\<lambda>s. Some (JString s))
       (local_ids (js ''cog'') (example_env (Resolves (Some example_reply)) ticking) 0 2) \<and>
   objective_ids (example_plan 1730000000000 1730000000001 1730000000002) cognitiveObjectives =
     [Some (JString (js ''cog-1730000000000-0'')), Some (JString (js ''cog-1730000000001-1''))]"
proof -
  from ids_are_made_locally[OF example_request example_reply_parsed example_run_ticking refl refl refl]
  have "objective_ids (example_plan 1730000000000 1730000000001 1730000000002) cognitiveObjectives =
     map (\<lambda>s. Some (JString s))
       (local_ids (js ''cog'') (example_env (Resolves (Some example_reply)) ticking)
          (ticks new_world) (length (remote_list example_parsed cognitiveObjectives)))"
    by blast
  then have "objective_ids (example_plan 1730000000000 1730000000001 1730000000002) cognitiveObjectives =
     map (\<lambda>s. Some (JString s))
       (local_ids (js ''cog'') (example_env (Resolves (Some example_reply)) ticking) 0 2)"
    by (simp add: example_remote_cognitive new_world_def numeral_2_eq_2)
  moreover have "map id_of (remote_list example_parsed cognitiveObjectives) =
     [Some (JString (js ''remote-1'')), None]"
    by (simp add: example_remote_cognitive id_of_def js_def)
  moreover have
    "objective_ids (example_plan 1730000000000 1730000000001 1730000000002) cognitiveObjectives =
     [Some (JString (js ''cog-1730000000000-0'')), Some (JString (js ''cog-1730000000001-1''))]"
    by (simp only: example_ids example_make_ids)
  ultimately show ?thesis by blast
qed

lemma example_run_frozen:
  "analyzeLessonPlanWithGemini (example_env (Resolves (Some example_reply)) frozen)
     (js ''poetry'') w =
     (Inr (example_plan 1730000000000 1730000000000 1730000000000),
      w\<lparr>sent := sent w @
             [build_request (example_env (Resolves (Some example_reply)) frozen) (js ''poetry'')],
        ticks := Suc (Suc (Suc (ticks w)))\<rparr>)"
  by (simp add: example_run frozen_def)

lemma example_run_ticking_again:
  "analyzeLessonPlanWithGemini (example_env (Resolves (Some example_reply)) ticking)
     (js ''poetry'')
     \<lparr>sent = [build_request (example_env (Resolves (Some example_reply)) ticking) (js ''poetry'')],
      console = [], ticks = 3\<rparr> =
     (Inr (example_plan 1730000000003 1730000000004 1730000000005),
      \<lparr>sent = [build_request (example_env (Resolves (Some example_reply)) ticking) (js ''poetry''),
               build_request (example_env (Resolves (Some example_reply)) ticking) (js ''poetry'')],
       console = [], ticks = 6\<rparr>)"
  by (simp add: example_run ticking_def)

lemma make_id_prefix:
  "make_id (js q) t i = js (q @ ''-'') @ Number_toString t @ js ''-'' @ digits i"
  by (simp add: make_id_def js_def)

lemma disjoint_images:
  assumes "set A \<inter> set B = {}"
  shows "set (map (\<lambda>s. Some (JString s)) A) \<inter> set (map (\<lambda>s. Some (JString s)) B) = {}"
  using assms by auto

text \<open>
  C8. For every call that returns an object, every id of the cognitive list begins
  with \<^verbatim>\<open>cog-\<close>, every id of the psychomotor list with \<^verbatim>\<open>psy-\<close> and every id of the
  affective list with \<^verbatim>\<open>aff-\<close>, and no id of one list is an id of another, whatever
  the clock reads.
\<close>

theorem ids_carry_the_prefix_of_their_list:
  assumes "analyzeLessonPlanWithGemini env lessonText w = (Inr plan, w')"
  shows "(\<forall>x\<in>set (objective_ids plan cognitiveObjectives).
            \<exists>r. x = Some (JString (js ''cog-'' @ r))) \<and>
         (\<forall>x\<in>set (objective_ids plan psychomotorObjectives).
            \<exists>r. x = Some (JString (js ''psy-'' @ r))) \<and>
         (\<forall>x\<in>set (objective_ids plan affectiveObjectives).
            \<exists>r. x = Some (JString (js ''aff-'' @ r))) \<and>
         set (objective_ids plan cognitiveObjectives) \<inter>
           set (objective_ids plan psychomotorObjectives) = {} \<and>
         set (objective_ids plan cognitiveObjectives) \<inter>
           set (objective_ids plan affectiveObjectives) = {} \<and>
         set (objective_ids plan psychomotorObjectives) \<inter>
           set (objective_ids plan affectiveObjectives) = {}"
proof -
  from assms obtain nc np na where
    c: "objective_ids plan cognitiveObjectives =
          map (\<lambda>s. Some (JString s)) (local_ids (js ''cog'') env (ticks w) nc)"
    and p: "objective_ids plan psychomotorObjectives =
          map (\<lambda>s. Some (JString s)) (local_ids (js ''psy'') env (ticks w + nc) np)"
    and a: "objective_ids plan affectiveObjectives =
          map (\<lambda>s. Some (JString s)) (local_ids (js ''aff'') env (ticks w + nc + np) na)"
    by (rule analyze_ids)
  have pre: "\<exists>r. x = Some (JString (js (q @ ''-'') @ r))"
    if "x \<in> set (map (\<lambda>s. Some (JString s)) (local_ids (js q) env t n))" for x q t n
  proof -
    from that obtain k where "x = Some (JString (make_id (js q) (Date_now env (t + k)) k))"
      by (auto simp: local_ids_mem)
    then show ?thesis unfolding make_id_prefix by blast
  qed
  have "\<forall>x\<in>set (objective_ids plan cognitiveObjectives). \<exists>r. x = Some (JString (js ''cog-'' @ r))"
    unfolding c using pre[of _ "''cog''"] by simp
  moreover have
    "\<forall>x\<in>set (objective_ids plan psychomotorObjectives). \<exists>r. x = Some (JString (js ''psy-'' @ r))"
    unfolding p using pre[of _ "''psy''"] by simp
  moreover have
    "\<forall>x\<in>set (objective_ids plan affectiveObjectives). \<exists>r. x = Some (JString (js ''aff-'' @ r))"
    unfolding a using pre[of _ "''aff''"] by simp
  moreover have "set (objective_ids plan cognitiveObjectives) \<inter>
      set (objective_ids plan psychomotorObjectives) = {}"
    unfolding c p by (rule disjoint_images) (rule local_ids_disjoint[OF prefixes(1,2)])
  moreover have "set (objective_ids plan cognitiveObjectives) \<inter>
      set (objective_ids plan affectiveObjectives) = {}"
    unfolding c a by (rule disjoint_images) (rule local_ids_disjoint[OF prefixes(3,4)])
  moreover have "set (objective_ids plan psychomotorObjectives) \<inter>
      set (objective_ids plan affectiveObjectives) = {}"
    unfolding p a by (rule disjoint_images) (rule local_ids_disjoint[OF prefixes(5,6)])
  ultimately show ?thesis by (intro conjI)
qed

theorem ids_carry_the_prefix_of_their_list_witness:
  "objective_ids (example_plan 1730000000000 1730000000000 1730000000000) cognitiveObjectives =
     [Some (JString (js ''cog-1730000000000-0'')), Some (JString (js ''cog-1730000000000-1''))] \<and>
   objective_ids (example_plan 1730000000000 1730000000000 1730000000000) psychomotorObjectives =
     [Some (JString (js ''psy-1730000000000-0''))] \<and>
   set (objective_ids (example_plan 1730000000000 1730000000000 1730000000000) cognitiveObjectives) \<inter>
   set (objective_ids (example_plan 1730000000000 1730000000000 1730000000000)
          psychomotorObjectives) = {}"
proof -
  from ids_carry_the_prefix_of_their_list[OF example_run_frozen[of new_world]]
  have "set (objective_ids (example_plan 1730000000000 1730000000000 1730000000000)
               cognitiveObjectives) \<inter>
        set (objective_ids (example_plan 1730000000000 1730000000000 1730000000000)
               psychomotorObjectives) = {}"
    by (elim conjE)
  moreover have
    "objective_ids (example_plan 1730000000000 1730000000000 1730000000000) cognitiveObjectives =
     [Some (JString (js ''cog-1730000000000-0'')), Some (JString (js ''cog-1730000000000-1''))]"
    "objective_ids (example_plan 1730000000000 1730000000000 1730000000000) psychomotorObjectives =
     [Some (JString (js ''psy-1730000000000-0''))]"
    by (simp_all only: example_ids example_make_ids)
  ultimately show ?thesis by (intro conjI)
qed

text \<open>Every id of a returned object is made from a clock reading of that call.\<close>

lemma all_ids_mem:
  assumes "analyzeLessonPlanWithGemini env lessonText w = (Inr plan, w')"
    and "x \<in> set (all_ids plan)"
  obtains q j i where "length q = 3" "ticks w \<le> j" "j < ticks w'"
    "x = Some (JString (make_id q (Date_now env j) i))"
proof -
  from assms(1) obtain nc np na where
    c: "objective_ids plan cognitiveObjectives =
          map (\<lambda>s. Some (JString s)) (local_ids (js ''cog'') env (ticks w) nc)"
    and p: "objective_ids plan psychomotorObjectives =
          map (\<lambda>s. Some (JString s)) (local_ids (js ''psy'') env (ticks w + nc) np)"
    and a: "objective_ids plan affectiveObjectives =
          map (\<lambda>s. Some (JString s)) (local_ids (js ''aff'') env (ticks w + nc + np) na)"
    and t: "ticks w' = ticks w + nc + np + na"
    by (rule analyze_ids)
  have l: "length (js ''cog'') = 3" "length (js ''psy'') = 3" "length (js ''aff'') = 3"
    by (simp_all add: js_def)
  from assms(2) consider
      k where "k < nc" "x = Some (JString (make_id (js ''cog'') (Date_now env (ticks w + k)) k))"
    | k where "k < np" "x = Some (JString (make_id (js ''psy'') (Date_now env (ticks w + nc + k)) k))"
    | k where "k < na"
        "x = Some (JString (make_id (js ''aff'') (Date_now env (ticks w + nc + np + k)) k))"
    unfolding all_ids_def c p a by (auto simp: local_ids_mem)
  then show thesis
  proof cases
    case 1
    with t show thesis by (intro that[OF l(1), of "ticks w + k" k]) simp_all
  next
    case 2
    with t show thesis by (intro that[OF l(2), of "ticks w + nc + k" k]) simp_all
  next
    case 3
    with t show thesis by (intro that[OF l(3), of "ticks w + nc + np + k" k]) simp_all
  qed
qed

text \<open>
  C5, as the code has it. For any two calls that both return an object, if no clock
  reading of the one call equals a clock reading of the other, then no id of the one
  object is an id of the other.
\<close>

theorem ids_of_two_calls_disjoint_when_clock_differs:
  assumes "analyzeLessonPlanWithGemini env1 text1 w1 = (Inr plan1, w1')"
    and "analyzeLessonPlanWithGemini env2 text2 w2 = (Inr plan2, w2')"
    and "\<forall>j k. ticks w1 \<le> j \<and> j < ticks w1' \<and> ticks w2 \<le> k \<and> k < ticks w2'
           \<longrightarrow> Date_now env1 j \<noteq> Date_now env2 k"
  shows "set (all_ids plan1) \<inter> set (all_ids plan2) = {}"
proof (rule ccontr)
  assume "set (all_ids plan1) \<inter> set (all_ids plan2) \<noteq> {}"
  then obtain x where x1: "x \<in> set (all_ids plan1)" and x2: "x \<in> set (all_ids plan2)"
    by blast
  from assms(1) x1 obtain q j i where
    1: "length q = 3" "ticks w1 \<le> j" "j < ticks w1'"
       "x = Some (JString (make_id q (Date_now env1 j) i))"
    by (rule all_ids_mem)
  from assms(2) x2 obtain q' k i' where
    2: "length q' = 3" "ticks w2 \<le> k" "k < ticks w2'"
       "x = Some (JString (make_id q' (Date_now env2 k) i'))"
    by (rule all_ids_mem)
  from 1(4) 2(4) have "make_id q (Date_now env1 j) i = make_id q' (Date_now env2 k) i'"
    by simp
  from make_id_inj[OF this] 1(1) 2(1) have "Date_now env1 j = Date_now env2 k" by simp
  with assms(3) 1(2,3) 2(2,3) show False by blast
qed

theorem ids_of_two_calls_disjoint_when_clock_differs_witness:
  "all_ids (example_plan 1730000000000 1730000000001 1730000000002) =
     [Some (JString (js ''cog-1730000000000-0'')), Some (JString (js ''cog-1730000000001-1'')),
      Some (JString (js ''psy-1730000000002-0''))] \<and>
   all_ids (example_plan 1730000000003 1730000000004 1730000000005) =
     [Some (JString (js ''cog-1730000000003-0'')), Some (JString (js ''cog-1730000000004-1'')),
      Some (JString (js ''psy-1730000000005-0''))] \<and>
   set (all_ids (example_plan 1730000000000 1730000000001 1730000000002)) \<inter>
   set (all_ids (example_plan 1730000000003 1730000000004 1730000000005)) = {}"
proof -
  have clock: "\<forall>j k. ticks new_world \<le> j \<and> j < ticks \<lparr>sent = [build_request
        (example_env (Resolves (Some example_reply)) ticking) (js ''poetry'')],
        console = [], ticks = 3\<rparr> \<and>
      ticks \<lparr>sent = [build_request
        (example_env (Resolves (Some example_reply)) ticking) (js ''poetry'')],
        console = [], ticks = 3\<rparr> \<le> k \<and>
      k < ticks \<lparr>sent = [build_request (example_env (Resolves (Some example_reply)) ticking) (js ''poetry''),
               build_request (example_env (Resolves (Some example_reply)) ticking) (js ''poetry'')],
       console = [], ticks = 6\<rparr>
      \<longrightarrow> Date_now (example_env (Resolves (Some example_reply)) ticking) j \<noteq>
          Date_now (example_env (Resolves (Some example_reply)) ticking) k"
    by (simp add: example_env_def ticking_def)
  note d = ids_of_two_calls_disjoint_when_clock_differs[OF example_run_ticking
      example_run_ticking_again clock]
  have "all_ids (example_plan 1730000000000 1730000000001 1730000000002) =
     [Some (JString (js ''cog-1730000000000-0'')), Some (JString (js ''cog-1730000000001-1'')),
      Some (JString (js ''psy-1730000000002-0''))]"
    "all_ids (example_plan 1730000000003 1730000000004 1730000000005) =
     [Some (JString (js ''cog-1730000000003-0'')), Some (JString (js ''cog-1730000000004-1'')),
      Some (JString (js ''psy-1730000000005-0''))]"
    by (simp_all only: example_all_ids example_make_ids)
  with d show ?thesis by (intro conjI)
qed

text \<open>
  C5 as stated fails: with a clock that reads the same millisecond throughout, two
  calls, one after the other, return objects with the very same three ids.
\<close>

theorem ids_reused_when_clock_stands_still:
  "analyzeLessonPlanWithGemini (example_env (Resolves (Some example_reply)) frozen)
     (js ''poetry'') new_world =
     (Inr (example_plan 1730000000000 1730000000000 1730000000000),
      \<lparr>sent = [build_request (example_env (Resolves (Some example_reply)) frozen) (js ''poetry'')],
       console = [], ticks = 3\<rparr>) \<and>
   analyzeLessonPlanWithGemini (example_env (Resolves (Some example_reply)) frozen)
     (js ''poetry'')
     \<lparr>sent = [build_request (example_env (Resolves (Some example_reply)) frozen) (js ''poetry'')],
      console = [], ticks = 3\<rparr> =
     (Inr (example_plan 1730000000000 1730000000000 1730000000000),
      \<lparr>sent = [build_request (example_env (Resolves (Some example_reply)) frozen) (js ''poetry''),
               build_request (example_env (Resolves (Some example_reply)) frozen) (js ''poetry'')],
       console = [], ticks = 6\<rparr>) \<and>
   all_ids (example_plan 1730000000000 1730000000000 1730000000000) =
     [Some (JString (js ''cog-1730000000000-0'')), Some (JString (js ''cog-1730000000000-1'')),
      Some (JString (js ''psy-1730000000000-0''))]"
proof -
  have "analyzeLessonPlanWithGemini (example_env (Resolves (Some example_reply)) frozen)
     (js ''poetry'') new_world =
     (Inr (example_plan 1730000000000 1730000000000 1730000000000),
      \<lparr>sent = [build_request (example_env (Resolves (Some example_reply)) frozen) (js ''poetry'')],
       console = [], ticks = 3\<rparr>)"
    by (simp add: example_run_frozen new_world_def)
  moreover have "analyzeLessonPlanWithGemini (example_env (Resolves (Some example_reply)) frozen)
     (js ''poetry'')
     \<lparr>sent = [build_request (example_env (Resolves (Some example_reply)) frozen) (js ''poetry'')],
      console = [], ticks = 3\<rparr> =
     (Inr (example_plan 1730000000000 1730000000000 1730000000000),
      \<lparr>sent = [build_request (example_env (Resolves (Some example_reply)) frozen) (js ''poetry''),
               build_request (example_env (Resolves (Some example_reply)) frozen) (js ''poetry'')],
       console = [], ticks = 6\<rparr>)"
    by (simp add: example_run_frozen)
  moreover have "all_ids (example_plan 1730000000000 1730000000000 1730000000000) =
     [Some (JString (js ''cog-1730000000000-0'')), Some (JString (js ''cog-1730000000000-1'')),
      Some (JString (js ''psy-1730000000000-0''))]"
    by (simp only: example_all_ids example_make_ids)
  ultimately show ?thesis by (intro conjI)
qed

lemma build_request_generateContent:
  "build_request (env\<lparr>generateContent := g\<rparr>) lessonText = build_request env lessonText"
  by (simp add: build_request_def API_KEY_def)

lemma credential_missing_generateContent:
  "credential_missing (env\<lparr>generateContent := g\<rparr>) = credential_missing env"
  by (simp add: credential_missing_def)

text \<open>The body of \<^verbatim>\<open>try\<close> when the remote service answers with a text.\<close>

lemma try_block_reply:
  assumes "g (build_request env lessonText) = Resolves (Some reply)"
  shows "try_block (env\<lparr>generateContent := g\<rparr>) lessonText w =
           (case JSON_parse (trim reply) of
              None \<Rightarrow> (Inl SyntaxError, w\<lparr>sent := sent w @ [build_request env lessonText]\<rparr>)
            | Some parsed \<Rightarrow>
                assign_ids env parsed (w\<lparr>sent := sent w @ [build_request env lessonText]\<rparr>))"
  using assms
  by (simp add: try_block_def build_request_generateContent assign_ids_generateContent
      split: option.splits)

text \<open>
  C9, as the code has it. The reply is trimmed before it is parsed: for every reply
  that is a text surrounded by white space, the call ends as it does for the text
  alone, with the same returned object or the same failure, and with the same effects.
\<close>

theorem reply_is_trimmed_before_parsing:
  assumes "\<forall>c\<in>set pre. js_whitespace c"
    and "\<forall>c\<in>set post. js_whitespace c"
    and "g1 (build_request env lessonText) = Resolves (Some (pre @ doc @ post))"
    and "g2 (build_request env lessonText) = Resolves (Some doc)"
  shows "analyzeLessonPlanWithGemini (env\<lparr>generateContent := g1\<rparr>) lessonText w =
         analyzeLessonPlanWithGemini (env\<lparr>generateContent := g2\<rparr>) lessonText w"
  by (simp add: analyze_unfold credential_missing_generateContent
      try_block_reply[of g1 env lessonText "pre @ doc @ post", OF assms(3)]
      try_block_reply[of g2 env lessonText doc, OF assms(4)]
      trim_surrounded[OF assms(1,2)])

lemma empty_object_parsed: "JSON_parse (trim (js ''{}'')) = Some (JObject [])"
  by (simp add: trim_def js_whitespace_def lex_defs parse_defs)

theorem reply_is_trimmed_before_parsing_witness:
  "analyzeLessonPlanWithGemini
     (example_env (Rejects []) ticking
        \<lparr>generateContent := \<lambda>request. Resolves (Some (js ''  '' @ js ''{}'' @ js '' ''))\<rparr>)
     (js ''poetry'') new_world =
   analyzeLessonPlanWithGemini
     (example_env (Rejects []) ticking\<lparr>generateContent := \<lambda>request. Resolves (Some (js ''{}''))\<rparr>)
     (js ''poetry'') new_world \<and>
   fst (analyzeLessonPlanWithGemini
     (example_env (Rejects []) ticking\<lparr>generateContent := \<lambda>request. Resolves (Some (js ''{}''))\<rparr>)
     (js ''poetry'') new_world) =
   Inr (JObject [(cognitiveObjectives, JArray [] []), (psychomotorObjectives, JArray [] []),
                 (affectiveObjectives, JArray [] [])])"
proof -
  have 1: "\<forall>c\<in>set (js ''  ''). js_whitespace c" and 2: "\<forall>c\<in>set (js '' ''). js_whitespace c"
    by (simp_all add: js_def js_whitespace_def)
  have "analyzeLessonPlanWithGemini
     (example_env (Rejects []) ticking
        \<lparr>generateContent := \<lambda>request. Resolves (Some (js ''  '' @ js ''{}'' @ js '' ''))\<rparr>)
     (js ''poetry'') new_world =
   analyzeLessonPlanWithGemini
     (example_env (Rejects []) ticking\<lparr>generateContent := \<lambda>request. Resolves (Some (js ''{}''))\<rparr>)
     (js ''poetry'') new_world"
    by (rule reply_is_trimmed_before_parsing[OF 1 2 refl refl])
  moreover have "fst (analyzeLessonPlanWithGemini
     (example_env (Rejects []) ticking\<lparr>generateContent := \<lambda>request. Resolves (Some (js ''{}''))\<rparr>)
     (js ''poetry'') new_world) =
   Inr (JObject [(cognitiveObjectives, JArray [] []), (psychomotorObjectives, JArray [] []),
                 (affectiveObjectives, JArray [] [])])"
    by (simp add: analyze_unfold credential_missing_generateContent
        example_env_ready empty_object_parsed empty_object_assign
        try_block_reply[of "\<lambda>request. Resolves (Some (js ''{}''))" _ _ "js ''{}''"])
  ultimately show ?thesis by (intro conjI)
qed

text \<open>
  C9 as stated fails: \<^verbatim>\<open>null\<close> is a JSON document, and for the reply that is \<^verbatim>\<open>null\<close>
  between two spaces the call does not succeed; it throws the generic failure.
\<close>

lemma null_parsed:
  "JSON_parse (js ''null'') = Some JNull"
  "JSON_parse (trim (js '' '' @ js ''null'' @ js '' '')) = Some JNull"
  by (simp_all add: trim_def js_whitespace_def lex_defs parse_defs)

theorem json_within_whitespace_can_fail:
  "JSON_parse (js ''null'') = Some JNull \<and>
   list_all js_whitespace (js '' '') \<and>
   fst (analyzeLessonPlanWithGemini
          (example_env (Resolves (Some (js '' '' @ js ''null'' @ js '' ''))) ticking)
          (js ''poetry'') new_world) = Inl (Error failure_message)"
proof -
  have a: "assign_ids env JNull w = (Inl TypeError, w)" for env w
    by (simp add: assign_ids_def objectives_line_def)
  have "try_block (example_env (Resolves (Some (js '' '' @ js ''null'' @ js '' ''))) ticking)
          (js ''poetry'') new_world =
        (Inl TypeError,
         new_world\<lparr>sent := sent new_world @
           [build_request (example_env (Resolves (Some (js '' '' @ js ''null'' @ js '' ''))) ticking)
              (js ''poetry'')]\<rparr>)"
    by (simp add: try_block_def example_request null_parsed(2) a)
  from analyze_caught[OF example_env_ready this]
  have "fst (analyzeLessonPlanWithGemini
          (example_env (Resolves (Some (js '' '' @ js ''null'' @ js '' ''))) ticking)
          (js ''poetry'') new_world) = Inl (Error failure_message)"
    by simp
  moreover have "list_all js_whitespace (js '' '')"
    by (simp add: js_def js_whitespace_def)
  ultimately show ?thesis using null_parsed(1) by (intro conjI)
qed

end
